theory Spec2Isabelle
  imports Main "HOL-Library.AList"
begin

section \<open>JavaScript values\<close>

text \<open>
  The module under verification is a promise wrapper around the host's IndexedDB engine
  (\<^verbatim>\<open>src/idb.js\<close>, and a second variant of the same module, with name validation, in
  \<^verbatim>\<open>src/unnamed/part_000\<close>). Its functions take and return arbitrary JavaScript values, so
  the embedding starts with a datatype of the values that can occur: primitives, plain
  objects (own properties in enumeration order), frozen objects (the result of
  \<^verbatim>\<open>Object.freeze\<close>), arrays that are values, arrays that live in the heap and can be
  mutated in place (\<open>JArrRef\<close>, an address), error objects (name and message), events
  (type and target), methods of a facade (which operation, and the connection the closure
  captured) and handles of engine objects: request, connection, transaction (connection,
  scope, writable), object store (connection, name, writable), index, promise.
  Numbers are integers. A \<open>JArr\<close> is an array that cannot change: a frozen array, and
  also an array that is only read while the program runs (the array literal the module
  hands to the engine, a result of the engine), for which that makes no difference. An
  array that can be mutated in place, such as the arrays a caller puts into a schema, is
  a \<open>JArrRef\<close>, and two holders of the address hold the same array.

  Both files end their set-up with \<^verbatim>\<open>if (!indexedDB) throw ...\<close>: the module loads only
  where the host has the engine, and that is the situation modelled. Both export the
  object with \<^verbatim>\<open>open\<close> and \<^verbatim>\<open>delete\<close>, frozen.
\<close>

datatype meth =
    MSelect | MSelectAll | MSelectAllKeys | MSelectIndex | MDelete | MInsert | MUpdate
  | MClear | MCount | MClose | MCreate | MDeleteStore

datatype jsval =
    JUndefined
  | JNull
  | JBool bool
  | JNum int
  | JStr string
  | JArr "jsval list"
  | JArrRef nat
  | JObj "(string \<times> jsval) list"
  | JFrozen "(string \<times> jsval) list"
  | JMethod meth jsval
  | JError string string
  | JEvent string jsval
  | JRequest nat
  | JDb nat
  | JTxn nat "string list" bool
  | JStore nat string bool
  | JIndex nat string string
  | JPromise nat

text \<open>A synchronous call either throws (\<open>Inl\<close> the thrown value) or returns (\<open>Inr\<close>).\<close>

type_synonym 'a result = "jsval + 'a"

definition TypeError :: "string \<Rightarrow> jsval" where
  "TypeError msg = JError ''TypeError'' msg"

definition DOMException :: "string \<Rightarrow> jsval" where
  "DOMException name = JError name []"

text \<open>\<^verbatim>\<open>typeof v === "string"\<close> and \<^verbatim>\<open>typeof v === "function"\<close> on values.\<close>

fun is_string :: "jsval \<Rightarrow> bool" where
  "is_string (JStr s) = True"
| "is_string v = False"

text \<open>JavaScript truthiness, as tested by \<^verbatim>\<open>if (schema)\<close>.\<close>

fun truthy :: "jsval \<Rightarrow> bool" where
  "truthy JUndefined = False"
| "truthy JNull = False"
| "truthy (JBool b) = b"
| "truthy (JNum n) = (n \<noteq> 0)"
| "truthy (JStr s) = (s \<noteq> [])"
| "truthy v = True"

text \<open>
  Conversion of an argument to a DOMString, for the engine's name parameters. A string is
  its own text; undefined, null and the booleans give their names; an integer below
  \<open>2\<^sup>5\<^sup>3\<close> in absolute value, which a JavaScript number holds exactly, gives its decimal
  digits; an array gives the texts of its elements joined by commas, where undefined and
  null elements give the empty text. For every other value (a larger number, which
  JavaScript rounds and, from \<open>10\<^sup>2\<^sup>1\<close> on, prints with an exponent; an object, whose
  conversion calls its \<^verbatim>\<open>toString\<close>; a function; an array of the heap) the result is
  \<open>None\<close> here: the text is the host's to give, see \<open>dom_string\<close> below.
\<close>

function show_nat :: "nat \<Rightarrow> string" where
  "show_nat n =
     (if n < 10 then [char_of (48 + n)]
      else show_nat (n div 10) @ [char_of (48 + n mod 10)])"
  by pat_completeness auto
termination
  by (relation "measure (\<lambda>n. n)") auto

definition show_int :: "int \<Rightarrow> string" where
  "show_int i = (if i < 0 then CHR ''-'' # show_nat (nat (- i)) else show_nat (nat i))"

fun to_dom_string :: "jsval \<Rightarrow> string option"
  and join_strings :: "jsval list \<Rightarrow> string option" where
  "to_dom_string (JStr s) = Some s"
| "to_dom_string JUndefined = Some ''undefined''"
| "to_dom_string JNull = Some ''null''"
| "to_dom_string (JBool b) = Some (if b then ''true'' else ''false'')"
| "to_dom_string (JNum n) = (if \<bar>n\<bar> < 2 ^ 53 then Some (show_int n) else None)"
| "to_dom_string (JArr xs) = join_strings xs"
| "to_dom_string v = None"
| "join_strings [] = Some []"
| "join_strings (x # xs) =
     (case (case x of JUndefined \<Rightarrow> Some [] | JNull \<Rightarrow> Some [] | _ \<Rightarrow> to_dom_string x) of
        None \<Rightarrow> None
      | Some a \<Rightarrow>
          if xs = [] then Some a
          else (case join_strings xs of None \<Rightarrow> None | Some b \<Rightarrow> Some (a @ '','' @ b)))"

section \<open>The host: promises\<close>

text \<open>
  A promise is pending, fulfilled or rejected. The \<^verbatim>\<open>resolve\<close> and \<^verbatim>\<open>reject\<close> functions
  that the \<^verbatim>\<open>Promise\<close> constructor hands to its executor settle a pending promise and do
  nothing on a settled one. (No value of the model is a thenable, so resolving is
  fulfilling.)
\<close>

datatype promise = Pending | Fulfilled jsval | Rejected jsval

fun settled :: "promise \<Rightarrow> bool" where
  "settled Pending = False"
| "settled p = True"


section \<open>The host: the storage engine\<close>

text \<open>
  Modelled from the spec: the host's transactional storage engine (the browser's
  IndexedDB), which the module calls and which is not part of the repository. The spec
  describes it in its data model and external interfaces: a connection to a named,
  versioned database; record collections (object stores), each record with one primary
  key that is extracted from a configured field path or supplied explicitly; secondary
  indexes over a field path, optionally uniqueness-constrained; adding a record whose
  primary key exists fails, putting creates or overwrites, and a write that repeats a
  value of a uniqueness-constrained index fails. Every engine request is answered later
  by one success or error notification. The engine's exceptions and checks follow the
  IndexedDB interface the source calls. Not modelled: key ranges (a query is a key or
  absent), dotted key paths (a path is one property name, or an array of them), dates
  and binary keys, multi-entry indexes, the key order of results (records are kept in
  insertion order), values that cannot be cloned, blocked opens.
\<close>

record secondary_index =
  ipath :: jsval
  iunique :: bool

record objstore =
  keypath :: jsval
  autoinc :: bool
  keygen :: int
  records :: "(jsval \<times> jsval) list"
  indexes :: "(string \<times> secondary_index) list"

record database =
  dversion :: int
  dstores :: "(string \<times> objstore) list"

record conn =
  cname :: string
  cclosed :: bool
  cupgrading :: bool

text \<open>Every call the module makes into the engine is logged with its arguments.\<close>

datatype call = Call string "jsval list"

text \<open>
  The engine's part of the state: the databases, the connections, the log of calls, the
  heap of the caller's mutable arrays (address \<open>r\<close> is position \<open>r\<close> of \<open>arrays\<close>), and the
  host's conversion to text of the values \<open>to_dom_string\<close> leaves open. That conversion is a
  parameter: from the heap and the value it gives a text or throws, and nothing is
  assumed of it.
\<close>

record estate =
  dbs :: "(string \<times> database) list"
  conns :: "conn list"
  arrays :: "jsval list list"
  calls :: "call list"
  host_string :: "jsval list list \<Rightarrow> jsval \<Rightarrow> string result"

text \<open>The text of a name argument, and of each name of a list of them.\<close>

definition dom_string :: "estate \<Rightarrow> jsval \<Rightarrow> string result" where
  "dom_string e v =
     (case to_dom_string v of Some s \<Rightarrow> Inr s | None \<Rightarrow> host_string e (arrays e) v)"

fun dom_strings :: "estate \<Rightarrow> jsval list \<Rightarrow> string list result" where
  "dom_strings e [] = Inr []"
| "dom_strings e (v # vs) =
     (case dom_string e v of
        Inl x \<Rightarrow> Inl x
      | Inr s \<Rightarrow> (case dom_strings e vs of Inl x \<Rightarrow> Inl x | Inr ss \<Rightarrow> Inr (s # ss)))"

definition log_call :: "string \<Rightarrow> jsval list \<Rightarrow> estate \<Rightarrow> estate" where
  "log_call m args e = e\<lparr>calls := calls e @ [Call m args]\<rparr>"

definition find_db :: "estate \<Rightarrow> nat \<Rightarrow> database option" where
  "find_db e c = (if c < length (conns e) then map_of (dbs e) (cname (conns e ! c)) else None)"

definition find_store :: "estate \<Rightarrow> nat \<Rightarrow> string \<Rightarrow> objstore option" where
  "find_store e c s = (case find_db e c of None \<Rightarrow> None | Some d \<Rightarrow> map_of (dstores d) s)"

definition put_store :: "nat \<Rightarrow> string \<Rightarrow> objstore \<Rightarrow> estate \<Rightarrow> estate" where
  "put_store c s os e =
     (case find_db e c of
        None \<Rightarrow> e
      | Some d \<Rightarrow>
          e\<lparr>dbs := AList.update (cname (conns e ! c))
                     (d\<lparr>dstores := AList.update s os (dstores d)\<rparr>) (dbs e)\<rparr>)"

definition drop_store :: "nat \<Rightarrow> string \<Rightarrow> estate \<Rightarrow> estate" where
  "drop_store c s e =
     (case find_db e c of
        None \<Rightarrow> e
      | Some d \<Rightarrow>
          e\<lparr>dbs := AList.update (cname (conns e ! c))
                     (d\<lparr>dstores := AList.delete s (dstores d)\<rparr>) (dbs e)\<rparr>)"

subsection \<open>Keys and key paths\<close>

fun valid_key :: "jsval \<Rightarrow> bool" where
  "valid_key (JNum n) = True"
| "valid_key (JStr s) = True"
| "valid_key (JArr ks) = (\<forall>k \<in> set ks. valid_key k)"
| "valid_key v = False"

fun valid_query :: "jsval \<Rightarrow> bool" where
  "valid_query JUndefined = True"
| "valid_query JNull = True"
| "valid_query q = valid_key q"

fun matches :: "jsval \<Rightarrow> jsval \<Rightarrow> bool" where
  "matches JUndefined k = True"
| "matches JNull k = True"
| "matches q k = (q = k)"

fun valid_count :: "jsval \<Rightarrow> bool" where
  "valid_count JUndefined = True"
| "valid_count (JNum n) = (0 \<le> n)"
| "valid_count v = False"

fun limit :: "jsval \<Rightarrow> 'a list \<Rightarrow> 'a list" where
  "limit (JNum n) xs = (if n = 0 then xs else take (nat n) xs)"
| "limit v xs = xs"

fun own_prop :: "jsval \<Rightarrow> string \<Rightarrow> jsval" where
  "own_prop (JObj ps) n = (case map_of ps n of None \<Rightarrow> JUndefined | Some v \<Rightarrow> v)"
| "own_prop (JFrozen ps) n = (case map_of ps n of None \<Rightarrow> JUndefined | Some v \<Rightarrow> v)"
| "own_prop v n = JUndefined"

fun eval_path1 :: "jsval \<Rightarrow> jsval \<Rightarrow> jsval" where
  "eval_path1 (JStr p) v = (if p = [] then v else own_prop v p)"
| "eval_path1 p v = JUndefined"

fun valid_keypath :: "jsval \<Rightarrow> bool" where
  "valid_keypath (JStr p) = True"
| "valid_keypath (JArr ps) = (ps \<noteq> [] \<and> (\<forall>p \<in> set ps. is_string p))"
| "valid_keypath p = False"

text \<open>
  The key a key path extracts from a value: \<open>JUndefined\<close> when the path leads nowhere
  (for an array of paths, when one of them does).
\<close>

fun eval_keypath :: "jsval \<Rightarrow> jsval \<Rightarrow> jsval" where
  "eval_keypath (JArr ps) v =
     (if \<exists>p \<in> set ps. eval_path1 p v = JUndefined then JUndefined
      else JArr (map (\<lambda>p. eval_path1 p v) ps))"
| "eval_keypath p v = eval_path1 p v"

fun inject_key :: "jsval \<Rightarrow> jsval \<Rightarrow> jsval \<Rightarrow> jsval" where
  "inject_key (JStr p) k (JObj ps) = JObj (AList.update p k ps)"
| "inject_key p k v = v"

fun is_plain_object :: "jsval \<Rightarrow> bool" where
  "is_plain_object (JObj ps) = True"
| "is_plain_object v = False"

text \<open>
  The primary key of a write, decided when \<^verbatim>\<open>add\<close> or \<^verbatim>\<open>put\<close> is called: the engine
  throws a DataError when the store has a key path and a key is passed, when no key can
  be found and none will be generated, or when the key is not a valid key.
  \<open>Inr JUndefined\<close>: the key generator will supply the key.
\<close>

definition write_key :: "objstore \<Rightarrow> jsval \<Rightarrow> jsval \<Rightarrow> jsval result" where
  "write_key os v k =
     (if keypath os \<noteq> JNull then
        (if k \<noteq> JUndefined then Inl (DOMException ''DataError'')
         else if eval_keypath (keypath os) v \<noteq> JUndefined then
           (if valid_key (eval_keypath (keypath os) v) then Inr (eval_keypath (keypath os) v)
            else Inl (DOMException ''DataError''))
         else if autoinc os \<and> is_plain_object v then Inr JUndefined
         else Inl (DOMException ''DataError''))
      else if k \<noteq> JUndefined then
        (if valid_key k then Inr k else Inl (DOMException ''DataError''))
      else if autoinc os then Inr JUndefined
      else Inl (DOMException ''DataError''))"

text \<open>
  A write of value \<open>v\<close> under primary key \<open>key\<close> violates a uniqueness-constrained index
  when another record holds the same index key.
\<close>

definition unique_conflict :: "objstore \<Rightarrow> jsval \<Rightarrow> jsval \<Rightarrow> bool" where
  "unique_conflict os key v =
     list_ex (\<lambda>(n, ix). iunique ix \<and> valid_key (eval_keypath (ipath ix) v) \<and>
        list_ex (\<lambda>(pk, w). pk \<noteq> key \<and> eval_keypath (ipath ix) w = eval_keypath (ipath ix) v)
          (records os))
       (indexes os)"


subsection \<open>Schema changes, available during an upgrade\<close>

definition throw :: "jsval \<Rightarrow> 's \<Rightarrow> 'a result \<times> 's" where
  "throw x s = (Inl x, s)"

definition ret :: "'a \<Rightarrow> 's \<Rightarrow> 'a result \<times> 's" where
  "ret a s = (Inr a, s)"

text \<open>A call that does not touch the state.\<close>

definition call :: "'a result \<Rightarrow> 's \<Rightarrow> 'a result \<times> 's" where
  "call r s = (r, s)"

text \<open>Sequencing of calls: an exception of the first call ends the chain.\<close>

definition and_then ::
  "('s \<Rightarrow> 'a result \<times> 's) \<Rightarrow> ('a \<Rightarrow> 's \<Rightarrow> 'b result \<times> 's) \<Rightarrow> 's \<Rightarrow> 'b result \<times> 's" where
  "and_then m f s = (case m s of (Inl x, s1) \<Rightarrow> (Inl x, s1) | (Inr a, s1) \<Rightarrow> f a s1)"

definition in_upgrade :: "estate \<Rightarrow> nat \<Rightarrow> bool" where
  "in_upgrade e c = (c < length (conns e) \<and> cupgrading (conns e ! c) \<and> \<not> cclosed (conns e ! c))"

text \<open>
  The options of \<^verbatim>\<open>createObjectStore\<close>: a dictionary with \<^verbatim>\<open>keyPath\<close> and
  \<^verbatim>\<open>autoIncrement\<close>. A primitive that is not undefined or null is no dictionary.
\<close>

fun store_options :: "jsval \<Rightarrow> (jsval \<times> bool) result" where
  "store_options (JBool b) = Inl (TypeError ''options is not an object'')"
| "store_options (JNum n) = Inl (TypeError ''options is not an object'')"
| "store_options (JStr s) = Inl (TypeError ''options is not an object'')"
| "store_options v =
     (if own_prop v ''keyPath'' = JUndefined \<or> own_prop v ''keyPath'' = JNull
      then Inr (JNull, truthy (own_prop v ''autoIncrement''))
      else if valid_keypath (own_prop v ''keyPath'')
      then Inr (own_prop v ''keyPath'', truthy (own_prop v ''autoIncrement''))
      else Inl (DOMException ''SyntaxError''))"

fun is_array_path :: "jsval \<Rightarrow> bool" where
  "is_array_path (JArr ps) = True"
| "is_array_path p = False"

definition db_createObjectStore ::
  "jsval \<Rightarrow> jsval \<Rightarrow> jsval \<Rightarrow> estate \<Rightarrow> jsval result \<times> estate" where
  "db_createObjectStore db name options e0 =
     (case db of
        JDb c \<Rightarrow>
          (let e = log_call ''createObjectStore'' [name, options] e0 in
           case dom_string e name of
             Inl x \<Rightarrow> throw x e
           | Inr s \<Rightarrow>
               (case store_options options of
                  Inl x \<Rightarrow> throw x e
                | Inr (kp, ai) \<Rightarrow>
                    if \<not> in_upgrade e c then throw (DOMException ''InvalidStateError'') e
                    else if find_db e c = None then throw (DOMException ''InvalidStateError'') e
                    else if find_store e c s \<noteq> None
                      then throw (DOMException ''ConstraintError'') e
                    else if ai \<and> (kp = JStr [] \<or> is_array_path kp)
                      then throw (DOMException ''InvalidAccessError'') e
                    else ret (JStore c s True)
                           (put_store c s
                              \<lparr>keypath = kp, autoinc = ai, keygen = 1, records = [],
                               indexes = []\<rparr> e)))
      | _ \<Rightarrow> throw (TypeError ''db.createObjectStore is not a function'') e0)"

definition db_deleteObjectStore :: "jsval \<Rightarrow> jsval \<Rightarrow> estate \<Rightarrow> jsval result \<times> estate" where
  "db_deleteObjectStore db name e0 =
     (case db of
        JDb c \<Rightarrow>
          (let e = log_call ''deleteObjectStore'' [name] e0 in
           case dom_string e name of
             Inl x \<Rightarrow> throw x e
           | Inr s \<Rightarrow>
               if \<not> in_upgrade e c then throw (DOMException ''InvalidStateError'') e
               else if find_store e c s = None
                 then throw (DOMException ''NotFoundError'') e
               else ret JUndefined (drop_store c s e))
      | _ \<Rightarrow> throw (TypeError ''db.deleteObjectStore is not a function'') e0)"

text \<open>
  The options of \<^verbatim>\<open>createIndex\<close>: a dictionary with \<^verbatim>\<open>unique\<close>; here arrays are
  objects too, without that property.
\<close>

fun index_options :: "jsval \<Rightarrow> bool result" where
  "index_options (JBool b) = Inl (TypeError ''options is not an object'')"
| "index_options (JNum n) = Inl (TypeError ''options is not an object'')"
| "index_options (JStr s) = Inl (TypeError ''options is not an object'')"
| "index_options v = Inr (truthy (own_prop v ''unique''))"

text \<open>
  \<^verbatim>\<open>store.createIndex(name, keyPath, options)\<close>, called with an argument list: it needs
  two arguments and ignores those after the third.
\<close>

definition store_createIndex :: "jsval \<Rightarrow> jsval list \<Rightarrow> estate \<Rightarrow> jsval result \<times> estate" where
  "store_createIndex store args e0 =
     (case store of
        JStore c s w \<Rightarrow>
          (let e = log_call ''createIndex'' args e0 in
           case args of
             name # path # rest \<Rightarrow>
               (case dom_string e name of
                  Inl x \<Rightarrow> throw x e
                | Inr n \<Rightarrow>
               (case index_options (case rest of [] \<Rightarrow> JUndefined | ops # _ \<Rightarrow> ops) of
                  Inl x \<Rightarrow> throw x e
                | Inr u \<Rightarrow>
                    (case find_store e c s of
                       None \<Rightarrow> throw (DOMException ''InvalidStateError'') e
                     | Some os \<Rightarrow>
                         if \<not> in_upgrade e c then throw (DOMException ''InvalidStateError'') e
                         else if map_of (indexes os) n \<noteq> None
                           then throw (DOMException ''ConstraintError'') e
                         else if \<not> valid_keypath path then throw (DOMException ''SyntaxError'') e
                         else ret (JIndex c s n)
                                (put_store c s
                                   (os\<lparr>indexes := indexes os @
                                      [(n, \<lparr>ipath = path, iunique = u\<rparr>)]\<rparr>) e))))
           | _ \<Rightarrow> throw (TypeError ''2 arguments required'') e)
      | _ \<Rightarrow> throw (TypeError ''store.createIndex is not a function'') e0)"

subsection \<open>Arrays and objects of the caller\<close>

text \<open>
  \<^verbatim>\<open>Object.keys(v)\<close> and \<^verbatim>\<open>v[key]\<close>: the own enumerable properties of a value. An array
  has its indices, a string its characters, other primitives have none.
\<close>

definition indexed :: "jsval list \<Rightarrow> (string \<times> jsval) list" where
  "indexed xs = zip (map show_nat [0..<length xs]) xs"

fun own_entries :: "jsval \<Rightarrow> estate \<Rightarrow> (string \<times> jsval) list" where
  "own_entries (JObj ps) e = ps"
| "own_entries (JFrozen ps) e = ps"
| "own_entries (JArr xs) e = indexed xs"
| "own_entries (JArrRef r) e = (if r < length (arrays e) then indexed (arrays e ! r) else [])"
| "own_entries (JStr s) e = indexed (map (\<lambda>c. JStr [c]) s)"
| "own_entries v e = []"

definition object_keys :: "jsval \<Rightarrow> estate \<Rightarrow> string list" where
  "object_keys v e = map fst (own_entries v e)"

definition get_prop :: "jsval \<Rightarrow> string \<Rightarrow> estate \<Rightarrow> jsval" where
  "get_prop v key e = (case map_of (own_entries v e) key of None \<Rightarrow> JUndefined | Some x \<Rightarrow> x)"

text \<open>
  \<^verbatim>\<open>a.unshift(x)\<close> inserts \<open>x\<close> at position zero of the array \<open>a\<close>, in place: for an array
  in the heap the heap changes, and every holder of the address sees it; the result is
  the new length. On an array that cannot change (a frozen array) the call throws a
  TypeError, and so it does on a value without that method.
\<close>

fun unshift :: "jsval \<Rightarrow> jsval \<Rightarrow> estate \<Rightarrow> jsval result \<times> estate" where
  "unshift (JArrRef r) x e =
     (if r < length (arrays e)
      then (Inr (JNum (int (length (arrays e ! r)) + 1)),
            e\<lparr>arrays := (arrays e)[r := x # arrays e ! r]\<rparr>)
      else (Inl (TypeError ''unshift is not a function''), e))"
| "unshift (JArr xs) x e = (Inl (TypeError ''object is not extensible''), e)"
| "unshift v x e = (Inl (TypeError ''unshift is not a function''), e)"

text \<open>The spread \<^verbatim>\<open>...a\<close> of an array into an argument list.\<close>

fun spread :: "jsval \<Rightarrow> estate \<Rightarrow> jsval list result" where
  "spread (JArrRef r) e =
     (if r < length (arrays e) then Inr (arrays e ! r) else Inl (TypeError ''not iterable''))"
| "spread (JArr xs) e = Inr xs"
| "spread (JStr s) e = Inr (map (\<lambda>c. JStr [c]) s)"
| "spread v e = Inl (TypeError ''not iterable'')"

text \<open>
  \<^verbatim>\<open>Object.freeze\<close>, which the module applies to object literals and to nothing else:
  the argument here is the list of the properties of the literal.
\<close>

definition Object_freeze :: "(string \<times> jsval) list \<Rightarrow> jsval" where
  "Object_freeze ps = JFrozen ps"

text \<open>
  What a caller can try on an object he was given: assign a property, define one, delete
  one. On a frozen object every attempt fails (silently, or with a TypeError in strict
  code) and leaves the object as it was.
\<close>

datatype mutation = Assign string jsval | Define string jsval | Remove string

fun mutate :: "mutation \<Rightarrow> jsval \<Rightarrow> jsval" where
  "mutate (Assign n v) (JObj ps) = JObj (AList.update n v ps)"
| "mutate (Define n v) (JObj ps) = JObj (AList.update n v ps)"
| "mutate (Remove n) (JObj ps) = JObj (AList.delete n ps)"
| "mutate m v = v"

fun mutate_all :: "mutation list \<Rightarrow> jsval \<Rightarrow> jsval" where
  "mutate_all [] v = v"
| "mutate_all (m # ms) v = mutate_all ms (mutate m v)"

text \<open>The names of the operations an object exposes.\<close>

fun exposed :: "jsval \<Rightarrow> string list" where
  "exposed (JObj ps) = map fst ps"
| "exposed (JFrozen ps) = map fst ps"
| "exposed v = []"


subsection \<open>Requests\<close>

text \<open>
  An upgrade callback is caller's code: it gets the event and the Upgrade Facade. What it
  does is its outcome: the state it leaves the engine in (it may call the methods of the
  facade and the engine itself), the calls it made of the error handlers it reaches
  through the event, in their order (\<^verbatim>\<open>e.target.onerror(x)\<close> on the request and
  \<^verbatim>\<open>e.target.result.onerror(x)\<close> on the connection), and whether it returns or throws
  in the end. An exception of one of those calls ends the callback. Not modelled: a
  callback that calls \<^verbatim>\<open>e.target.onsuccess\<close> or \<^verbatim>\<open>e.target.onupgradeneeded\<close>
  itself, that assigns a handler, or that catches the exception of a call. An argument
  of \<^verbatim>\<open>open\<close> is a value or such a function.
\<close>

datatype hcall = CallRequestOnError jsval | CallDbOnError jsval

datatype outcome = Outcome "hcall list" "jsval result"

type_synonym callback = "jsval \<Rightarrow> jsval \<Rightarrow> estate \<Rightarrow> outcome \<times> estate"

datatype arg = Val jsval | Fun callback

text \<open>The operation a request stands for, carried out by the engine later.\<close>

datatype op =
    OpGet nat string jsval
  | OpGetAll nat string jsval jsval
  | OpGetAllKeys nat string jsval jsval
  | OpIndexGet nat string string jsval
  | OpDelete nat string jsval
  | OpWrite bool nat string jsval jsval
  | OpClear nat string
  | OpCount nat string jsval
  | OpOpen string int
  | OpDeleteDatabase string

text \<open>
  The handlers the module registers are closures; each constructor names one closure of
  the source with what it captured. \<open>HResolveResult r p\<close> is
  \<^verbatim>\<open>() => resolve(request.result)\<close> and \<open>HRejectError r p\<close> is
  \<^verbatim>\<open>() => reject(request.error)\<close> of \<^verbatim>\<open>promisify\<close> (request \<open>r\<close>, promise \<open>p\<close>);
  \<open>HRejectEvent p\<close> is \<^verbatim>\<open>(e) => reject(e)\<close>, \<open>HResolveClient p\<close> is
  \<^verbatim>\<open>(e) => resolve(client(e.target.result))\<close> and \<open>HUpgrade p fn\<close> is the
  \<^verbatim>\<open>onupgradeneeded\<close> function of \<^verbatim>\<open>open\<close>.
\<close>

datatype handler =
    HUnset
  | HResolveResult nat nat
  | HRejectError nat nat
  | HRejectEvent nat
  | HResolveClient nat
  | HUpgrade nat arg

record request =
  rresult :: jsval
  rerror :: jsval
  onsuccess :: handler
  onerror :: handler
  onupgradeneeded :: handler
  rop :: op
  rdone :: bool

text \<open>
  The whole state: the engine, the requests (request \<open>r\<close> is position \<open>r\<close>), the promises
  (promise \<open>p\<close> is position \<open>p\<close>) and the \<^verbatim>\<open>onerror\<close> handler of each connection.
\<close>

record state =
  eng :: estate
  reqs :: "request list"
  proms :: "promise list"
  dbonerror :: "nat \<Rightarrow> handler"

definition logged :: "string \<Rightarrow> jsval list \<Rightarrow> state \<Rightarrow> state" where
  "logged m args st = st\<lparr>eng := log_call m args (eng st)\<rparr>"

definition on_engine :: "(estate \<Rightarrow> 'a result \<times> estate) \<Rightarrow> state \<Rightarrow> 'a result \<times> state" where
  "on_engine f st = (case f (eng st) of (r, e) \<Rightarrow> (r, st\<lparr>eng := e\<rparr>))"

definition new_request :: "op \<Rightarrow> state \<Rightarrow> jsval result \<times> state" where
  "new_request opn st =
     (Inr (JRequest (length (reqs st))),
      st\<lparr>reqs := reqs st @
        [\<lparr>rresult = JUndefined, rerror = JNull, onsuccess = HUnset, onerror = HUnset,
          onupgradeneeded = HUnset, rop = opn, rdone = False\<rparr>]\<rparr>)"

definition get_result :: "state \<Rightarrow> nat \<Rightarrow> jsval" where
  "get_result st r = (if r < length (reqs st) then rresult (reqs st ! r) else JUndefined)"

definition get_error :: "state \<Rightarrow> nat \<Rightarrow> jsval" where
  "get_error st r = (if r < length (reqs st) then rerror (reqs st ! r) else JUndefined)"

text \<open>
  The scope of \<^verbatim>\<open>db.transaction(names, mode)\<close>: a list of names, or one name.
\<close>

definition scope_names :: "estate \<Rightarrow> jsval \<Rightarrow> string list result" where
  "scope_names e names =
     (case names of
        JArr ns \<Rightarrow> dom_strings e ns
      | JArrRef r \<Rightarrow>
          if r < length (arrays e) then dom_strings e (arrays e ! r)
          else Inl (TypeError ''not a list of names'')
      | _ \<Rightarrow> (case dom_string e names of Inl x \<Rightarrow> Inl x | Inr s \<Rightarrow> Inr [s]))"

definition db_transaction :: "jsval \<Rightarrow> jsval \<Rightarrow> jsval \<Rightarrow> state \<Rightarrow> jsval result \<times> state" where
  "db_transaction db names mode st0 =
     (case db of
        JDb c \<Rightarrow>
          (let st = logged ''transaction'' [names, mode] st0 in
           case scope_names (eng st) names of
             Inl x \<Rightarrow> throw x st
           | Inr scope \<Rightarrow>
               if mode \<noteq> JStr ''readonly'' \<and> mode \<noteq> JStr ''readwrite''
                 then throw (TypeError ''invalid transaction mode'') st
               else if \<not> c < length (conns (eng st)) \<or> cclosed (conns (eng st) ! c)
                       \<or> cupgrading (conns (eng st) ! c)
                 then throw (DOMException ''InvalidStateError'') st
               else if \<exists>s \<in> set scope. find_store (eng st) c s = None
                 then throw (DOMException ''NotFoundError'') st
               else if scope = [] then throw (DOMException ''InvalidAccessError'') st
               else ret (JTxn c scope (mode = JStr ''readwrite'')) st)
      | _ \<Rightarrow> throw (TypeError ''db.transaction is not a function'') st0)"

definition tx_objectStore :: "jsval \<Rightarrow> jsval \<Rightarrow> state \<Rightarrow> jsval result \<times> state" where
  "tx_objectStore tx name st0 =
     (case tx of
        JTxn c scope w \<Rightarrow>
          (let st = logged ''objectStore'' [name] st0 in
           case dom_string (eng st) name of
             Inl x \<Rightarrow> throw x st
           | Inr s \<Rightarrow>
               if s \<in> set scope then ret (JStore c s w) st
               else throw (DOMException ''NotFoundError'') st)
      | _ \<Rightarrow> throw (TypeError ''objectStore is not a function'') st0)"

definition store_get :: "jsval \<Rightarrow> jsval \<Rightarrow> state \<Rightarrow> jsval result \<times> state" where
  "store_get store key st0 =
     (case store of
        JStore c s w \<Rightarrow>
          (let st = logged ''get'' [key] st0 in
           if valid_key key then new_request (OpGet c s key) st
           else throw (DOMException ''DataError'') st)
      | _ \<Rightarrow> throw (TypeError ''get is not a function'') st0)"

definition store_getAll :: "jsval \<Rightarrow> jsval \<Rightarrow> jsval \<Rightarrow> state \<Rightarrow> jsval result \<times> state" where
  "store_getAll store query cnt st0 =
     (case store of
        JStore c s w \<Rightarrow>
          (let st = logged ''getAll'' [query, cnt] st0 in
           if \<not> valid_count cnt then throw (TypeError ''invalid count'') st
           else if valid_query query then new_request (OpGetAll c s query cnt) st
           else throw (DOMException ''DataError'') st)
      | _ \<Rightarrow> throw (TypeError ''getAll is not a function'') st0)"

definition store_getAllKeys :: "jsval \<Rightarrow> jsval \<Rightarrow> jsval \<Rightarrow> state \<Rightarrow> jsval result \<times> state" where
  "store_getAllKeys store query cnt st0 =
     (case store of
        JStore c s w \<Rightarrow>
          (let st = logged ''getAllKeys'' [query, cnt] st0 in
           if \<not> valid_count cnt then throw (TypeError ''invalid count'') st
           else if valid_query query then new_request (OpGetAllKeys c s query cnt) st
           else throw (DOMException ''DataError'') st)
      | _ \<Rightarrow> throw (TypeError ''getAllKeys is not a function'') st0)"

definition store_index :: "jsval \<Rightarrow> jsval \<Rightarrow> state \<Rightarrow> jsval result \<times> state" where
  "store_index store name st0 =
     (case store of
        JStore c s w \<Rightarrow>
          (let st = logged ''index'' [name] st0 in
           case dom_string (eng st) name of
             Inl x \<Rightarrow> throw x st
           | Inr n \<Rightarrow>
               (case find_store (eng st) c s of
                  None \<Rightarrow> throw (DOMException ''InvalidStateError'') st
                | Some os \<Rightarrow>
                    if map_of (indexes os) n = None
                    then throw (DOMException ''NotFoundError'') st
                    else ret (JIndex c s n) st))
      | _ \<Rightarrow> throw (TypeError ''index is not a function'') st0)"

definition index_get :: "jsval \<Rightarrow> jsval \<Rightarrow> state \<Rightarrow> jsval result \<times> state" where
  "index_get ix key st0 =
     (case ix of
        JIndex c s n \<Rightarrow>
          (let st = logged ''get'' [key] st0 in
           if valid_key key then new_request (OpIndexGet c s n key) st
           else throw (DOMException ''DataError'') st)
      | _ \<Rightarrow> throw (TypeError ''get is not a function'') st0)"

definition store_delete :: "jsval \<Rightarrow> jsval \<Rightarrow> state \<Rightarrow> jsval result \<times> state" where
  "store_delete store key st0 =
     (case store of
        JStore c s w \<Rightarrow>
          (let st = logged ''delete'' [key] st0 in
           if \<not> w then throw (DOMException ''ReadOnlyError'') st
           else if valid_key key then new_request (OpDelete c s key) st
           else throw (DOMException ''DataError'') st)
      | _ \<Rightarrow> throw (TypeError ''delete is not a function'') st0)"

definition store_clear :: "jsval \<Rightarrow> state \<Rightarrow> jsval result \<times> state" where
  "store_clear store st0 =
     (case store of
        JStore c s w \<Rightarrow>
          (let st = logged ''clear'' [] st0 in
           if \<not> w then throw (DOMException ''ReadOnlyError'') st
           else new_request (OpClear c s) st)
      | _ \<Rightarrow> throw (TypeError ''clear is not a function'') st0)"

definition store_count :: "jsval \<Rightarrow> jsval \<Rightarrow> state \<Rightarrow> jsval result \<times> state" where
  "store_count store query st0 =
     (case store of
        JStore c s w \<Rightarrow>
          (let st = logged ''count'' [query] st0 in
           if valid_query query then new_request (OpCount c s query) st
           else throw (DOMException ''DataError'') st)
      | _ \<Rightarrow> throw (TypeError ''count is not a function'') st0)"

text \<open>
  \<^verbatim>\<open>store.add\<close> and \<^verbatim>\<open>store.put\<close>, called with the argument list \<open>[value]\<close> or
  \<open>[value, key]\<close>. The primary key is decided here (\<open>write_key\<close>); whether the write
  succeeds is decided when the engine carries the request out.
\<close>

definition store_write :: "bool \<Rightarrow> jsval \<Rightarrow> jsval list \<Rightarrow> state \<Rightarrow> jsval result \<times> state" where
  "store_write overwrite store args st0 =
     (case store of
        JStore c s w \<Rightarrow>
          (let st = logged (if overwrite then ''put'' else ''add'') args st0 in
           case args of
             [] \<Rightarrow> throw (TypeError ''1 argument required'') st
           | v # ks \<Rightarrow>
               if \<not> w then throw (DOMException ''ReadOnlyError'') st
               else (case find_store (eng st) c s of
                       None \<Rightarrow> throw (DOMException ''InvalidStateError'') st
                     | Some os \<Rightarrow>
                         (case write_key os v (case ks of [] \<Rightarrow> JUndefined | k # _ \<Rightarrow> k) of
                            Inl x \<Rightarrow> throw x st
                          | Inr k \<Rightarrow> new_request (OpWrite overwrite c s v k) st)))
      | _ \<Rightarrow> throw (TypeError ''not a function'') st0)"

definition store_add :: "jsval \<Rightarrow> jsval list \<Rightarrow> state \<Rightarrow> jsval result \<times> state" where
  "store_add = store_write False"

definition store_put :: "jsval \<Rightarrow> jsval list \<Rightarrow> state \<Rightarrow> jsval result \<times> state" where
  "store_put = store_write True"

definition db_close :: "jsval \<Rightarrow> state \<Rightarrow> jsval result \<times> state" where
  "db_close db st0 =
     (case db of
        JDb c \<Rightarrow>
          (let st = logged ''close'' [] st0 in
           if c < length (conns (eng st))
           then ret JUndefined
                  (st\<lparr>eng := (eng st)\<lparr>conns := (conns (eng st))[c := (conns (eng st) ! c)\<lparr>cclosed := True\<rparr>]\<rparr>\<rparr>)
           else ret JUndefined st)
      | _ \<Rightarrow> throw (TypeError ''db.close is not a function'') st0)"

text \<open>
  \<^verbatim>\<open>indexedDB.open(name, version)\<close> and \<^verbatim>\<open>indexedDB.deleteDatabase(name)\<close>. A version
  is a number from 1 on; the engine's conversion of other values to numbers is not
  modelled, they are refused as zero is.
\<close>

definition indexedDB_open :: "jsval \<Rightarrow> jsval \<Rightarrow> state \<Rightarrow> jsval result \<times> state" where
  "indexedDB_open name version st0 =
     (let st = logged ''open'' [name, version] st0 in
      case dom_string (eng st) name of
        Inl x \<Rightarrow> throw x st
      | Inr s \<Rightarrow>
          (case version of
             JNum n \<Rightarrow>
               if 1 \<le> n then new_request (OpOpen s n) st
               else throw (TypeError ''invalid version'') st
           | _ \<Rightarrow> throw (TypeError ''invalid version'') st))"

definition indexedDB_deleteDatabase :: "jsval \<Rightarrow> state \<Rightarrow> jsval result \<times> state" where
  "indexedDB_deleteDatabase name st0 =
     (let st = logged ''deleteDatabase'' [name] st0 in
      case dom_string (eng st) name of
        Inl x \<Rightarrow> throw x st
      | Inr s \<Rightarrow> new_request (OpDeleteDatabase s) st)"

subsection \<open>Carrying a request out\<close>

definition no_store :: "estate \<Rightarrow> jsval result \<times> estate" where
  "no_store e = (Inl (DOMException ''InvalidStateError''), e)"

text \<open>
  A write: the key is the one decided at the call, or the next one of the key generator.
  \<^verbatim>\<open>add\<close> fails with a ConstraintError when the store has a record under the key;
  \<^verbatim>\<open>put\<close> does not. Both fail when a uniqueness-constrained index would hold the same
  key twice. The result is the key.
\<close>

definition assigned_key :: "objstore \<Rightarrow> jsval \<Rightarrow> jsval" where
  "assigned_key os k = (if k = JUndefined then JNum (keygen os) else k)"

definition stored_value :: "objstore \<Rightarrow> jsval \<Rightarrow> jsval \<Rightarrow> jsval" where
  "stored_value os k v =
     (if k = JUndefined then inject_key (keypath os) (JNum (keygen os)) v else v)"

definition exec_write ::
  "bool \<Rightarrow> nat \<Rightarrow> string \<Rightarrow> jsval \<Rightarrow> jsval \<Rightarrow> estate \<Rightarrow> jsval result \<times> estate" where
  "exec_write overwrite c s v k e =
     (case find_store e c s of
        None \<Rightarrow> no_store e
      | Some os \<Rightarrow>
          (let key = assigned_key os k;
               v' = stored_value os k v;
               gen = (case key of
                        JNum n \<Rightarrow> if autoinc os \<and> keygen os \<le> n then n + 1 else keygen os
                      | _ \<Rightarrow> keygen os)
           in
           if \<not> overwrite \<and> map_of (records os) key \<noteq> None
             then (Inl (DOMException ''ConstraintError''), e)
           else if unique_conflict os key v'
             then (Inl (DOMException ''ConstraintError''), e)
           else (Inr key,
                 put_store c s (os\<lparr>records := AList.update key v' (records os), keygen := gen\<rparr>) e)))"

fun exec_op :: "op \<Rightarrow> estate \<Rightarrow> jsval result \<times> estate" where
  "exec_op (OpGet c s k) e =
     (case find_store e c s of
        None \<Rightarrow> no_store e
      | Some os \<Rightarrow> (Inr (case map_of (records os) k of None \<Rightarrow> JUndefined | Some v \<Rightarrow> v), e))"
| "exec_op (OpGetAll c s q n) e =
     (case find_store e c s of
        None \<Rightarrow> no_store e
      | Some os \<Rightarrow>
          (Inr (JArr (limit n (map snd (filter (\<lambda>(k, v). matches q k) (records os))))), e))"
| "exec_op (OpGetAllKeys c s q n) e =
     (case find_store e c s of
        None \<Rightarrow> no_store e
      | Some os \<Rightarrow>
          (Inr (JArr (limit n (map fst (filter (\<lambda>(k, v). matches q k) (records os))))), e))"
| "exec_op (OpIndexGet c s i k) e =
     (case find_store e c s of
        None \<Rightarrow> no_store e
      | Some os \<Rightarrow>
          (case map_of (indexes os) i of
             None \<Rightarrow> no_store e
           | Some ix \<Rightarrow>
               (Inr (case filter (\<lambda>(pk, v). eval_keypath (ipath ix) v = k) (records os) of
                       [] \<Rightarrow> JUndefined
                     | (pk, v) # _ \<Rightarrow> v), e)))"
| "exec_op (OpDelete c s k) e =
     (case find_store e c s of
        None \<Rightarrow> no_store e
      | Some os \<Rightarrow> (Inr JUndefined, put_store c s (os\<lparr>records := AList.delete k (records os)\<rparr>) e))"
| "exec_op (OpWrite overwrite c s v k) e = exec_write overwrite c s v k e"
| "exec_op (OpClear c s) e =
     (case find_store e c s of
        None \<Rightarrow> no_store e
      | Some os \<Rightarrow> (Inr JUndefined, put_store c s (os\<lparr>records := []\<rparr>) e))"
| "exec_op (OpCount c s q) e =
     (case find_store e c s of
        None \<Rightarrow> no_store e
      | Some os \<Rightarrow> (Inr (JNum (int (length (filter (\<lambda>(k, v). matches q k) (records os))))), e))"
| "exec_op (OpOpen n v) e = (Inr JUndefined, e)"
| "exec_op (OpDeleteDatabase n) e = (Inr JUndefined, e\<lparr>dbs := AList.delete n (dbs e)\<rparr>)"

section \<open>The host: settling promises\<close>

text \<open>
  \<^verbatim>\<open>new Promise\<close> makes a pending promise; \<^verbatim>\<open>resolve\<close> and \<^verbatim>\<open>reject\<close> settle it if
  it is pending and do nothing otherwise.
\<close>

definition new_promise :: "state \<Rightarrow> nat \<times> state" where
  "new_promise st = (length (proms st), st\<lparr>proms := proms st @ [Pending]\<rparr>)"

definition resolve :: "nat \<Rightarrow> jsval \<Rightarrow> state \<Rightarrow> state" where
  "resolve p v st =
     (if p < length (proms st) \<and> proms st ! p = Pending
      then st\<lparr>proms := (proms st)[p := Fulfilled v]\<rparr> else st)"

definition reject :: "nat \<Rightarrow> jsval \<Rightarrow> state \<Rightarrow> state" where
  "reject p v st =
     (if p < length (proms st) \<and> proms st ! p = Pending
      then st\<lparr>proms := (proms st)[p := Rejected v]\<rparr> else st)"

definition promise_at :: "state \<Rightarrow> nat \<Rightarrow> promise option" where
  "promise_at st p = (if p < length (proms st) then Some (proms st ! p) else None)"


section \<open>The module, \<^verbatim>\<open>src/idb.js\<close>\<close>

subsection \<open>The Request Adapter\<close>

definition set_onsuccess :: "nat \<Rightarrow> handler \<Rightarrow> state \<Rightarrow> state" where
  "set_onsuccess r h st = st\<lparr>reqs := (reqs st)[r := (reqs st ! r)\<lparr>onsuccess := h\<rparr>]\<rparr>"

definition set_onerror :: "nat \<Rightarrow> handler \<Rightarrow> state \<Rightarrow> state" where
  "set_onerror r h st = st\<lparr>reqs := (reqs st)[r := (reqs st ! r)\<lparr>onerror := h\<rparr>]\<rparr>"

definition set_onupgradeneeded :: "nat \<Rightarrow> handler \<Rightarrow> state \<Rightarrow> state" where
  "set_onupgradeneeded r h st =
     st\<lparr>reqs := (reqs st)[r := (reqs st ! r)\<lparr>onupgradeneeded := h\<rparr>]\<rparr>"

text \<open>
  \<^verbatim>\<open>promisify(request)\<close>, the same text in both files: a new promise whose executor
  registers the two handlers on the request. The executor of a promise runs at once; an
  exception in it (the assignment of a property to undefined, null or a primitive, in
  strict code) rejects the promise. On another object that is no request the two
  assignments succeed and nothing will ever call the handlers.
\<close>

fun promisify_executor :: "jsval \<Rightarrow> nat \<Rightarrow> state \<Rightarrow> state" where
  "promisify_executor (JRequest r) p st =
     (if r < length (reqs st)
      then set_onerror r (HRejectError r p) (set_onsuccess r (HResolveResult r p) st)
      else st)"
| "promisify_executor JUndefined p st = reject p (TypeError ''cannot set properties'') st"
| "promisify_executor JNull p st = reject p (TypeError ''cannot set properties'') st"
| "promisify_executor (JBool b) p st = reject p (TypeError ''cannot set properties'') st"
| "promisify_executor (JNum n) p st = reject p (TypeError ''cannot set properties'') st"
| "promisify_executor (JStr s) p st = reject p (TypeError ''cannot set properties'') st"
| "promisify_executor v p st = st"

definition promisify :: "jsval \<Rightarrow> state \<Rightarrow> jsval result \<times> state" where
  "promisify request st =
     (case new_promise st of (p, st1) \<Rightarrow> (Inr (JPromise p), promisify_executor request p st1))"

text \<open>The two handlers of \<^verbatim>\<open>promisify\<close>, which read the request when they run.\<close>

definition promisify_onsuccess :: "nat \<Rightarrow> nat \<Rightarrow> state \<Rightarrow> state" where
  "promisify_onsuccess r p st = resolve p (get_result st r) st"

definition promisify_onerror :: "nat \<Rightarrow> nat \<Rightarrow> state \<Rightarrow> state" where
  "promisify_onerror r p st = reject p (get_error st r) st"

subsection \<open>The Connection Facade\<close>

definition client_select :: "jsval \<Rightarrow> jsval \<Rightarrow> jsval \<Rightarrow> state \<Rightarrow> jsval result \<times> state" where
  "client_select db table key =
     and_then (db_transaction db (JArr [table]) (JStr ''readonly'')) (\<lambda>tx.
       and_then (tx_objectStore tx table) (\<lambda>store.
       and_then (store_get store key) promisify))"

definition client_selectAll :: "jsval \<Rightarrow> jsval \<Rightarrow> jsval \<Rightarrow> jsval \<Rightarrow> state \<Rightarrow> jsval result \<times> state" where
  "client_selectAll db table query cnt =
     and_then (db_transaction db (JArr [table]) (JStr ''readonly'')) (\<lambda>tx.
       and_then (tx_objectStore tx table) (\<lambda>store.
       and_then (store_getAll store query cnt) promisify))"

definition client_selectAllKeys :: "jsval \<Rightarrow> jsval \<Rightarrow> jsval \<Rightarrow> jsval \<Rightarrow> state \<Rightarrow> jsval result \<times> state" where
  "client_selectAllKeys db table query cnt =
     and_then (db_transaction db (JArr [table]) (JStr ''readonly'')) (\<lambda>tx.
       and_then (tx_objectStore tx table) (\<lambda>store.
       and_then (store_getAllKeys store query cnt) promisify))"

definition client_selectIndex :: "jsval \<Rightarrow> jsval \<Rightarrow> jsval \<Rightarrow> jsval \<Rightarrow> state \<Rightarrow> jsval result \<times> state" where
  "client_selectIndex db table index key =
     and_then (db_transaction db (JArr [table]) (JStr ''readonly'')) (\<lambda>tx.
       and_then (tx_objectStore tx table) (\<lambda>store.
       and_then (store_index store index) (\<lambda>ix.
       and_then (index_get ix key) promisify)))"

definition client_delete :: "jsval \<Rightarrow> jsval \<Rightarrow> jsval \<Rightarrow> state \<Rightarrow> jsval result \<times> state" where
  "client_delete db table key =
     and_then (db_transaction db (JArr [table]) (JStr ''readwrite'')) (\<lambda>tx.
       and_then (tx_objectStore tx table) (\<lambda>store.
       and_then (store_delete store key) promisify))"

definition client_insert :: "jsval \<Rightarrow> jsval \<Rightarrow> jsval \<Rightarrow> jsval \<Rightarrow> state \<Rightarrow> jsval result \<times> state" where
  "client_insert db table value key =
     and_then
       (if key = JUndefined
        then and_then (db_transaction db (JArr [table]) (JStr ''readwrite'')) (\<lambda>tx.
             and_then (tx_objectStore tx table) (\<lambda>store. store_add store [value]))
        else and_then (db_transaction db (JArr [table]) (JStr ''readwrite'')) (\<lambda>tx.
             and_then (tx_objectStore tx table) (\<lambda>store. store_add store [value, key])))
       promisify"

definition client_update :: "jsval \<Rightarrow> jsval \<Rightarrow> jsval \<Rightarrow> jsval \<Rightarrow> state \<Rightarrow> jsval result \<times> state" where
  "client_update db table value key =
     and_then
       (if key = JUndefined
        then and_then (db_transaction db (JArr [table]) (JStr ''readwrite'')) (\<lambda>tx.
             and_then (tx_objectStore tx table) (\<lambda>store. store_put store [value]))
        else and_then (db_transaction db (JArr [table]) (JStr ''readwrite'')) (\<lambda>tx.
             and_then (tx_objectStore tx table) (\<lambda>store. store_put store [value, key])))
       promisify"

definition client_clear :: "jsval \<Rightarrow> jsval \<Rightarrow> state \<Rightarrow> jsval result \<times> state" where
  "client_clear db table =
     and_then (db_transaction db (JArr [table]) (JStr ''readwrite'')) (\<lambda>tx.
       and_then (tx_objectStore tx table) (\<lambda>store.
       and_then (store_clear store) promisify))"

definition client_count :: "jsval \<Rightarrow> jsval \<Rightarrow> jsval \<Rightarrow> state \<Rightarrow> jsval result \<times> state" where
  "client_count db table query =
     and_then (db_transaction db (JArr [table]) (JStr ''readonly'')) (\<lambda>tx.
       and_then (tx_objectStore tx table) (\<lambda>store.
       and_then (store_count store query) promisify))"

definition client_close :: "jsval \<Rightarrow> state \<Rightarrow> jsval result \<times> state" where
  "client_close db = db_close db"

definition client :: "jsval \<Rightarrow> jsval" where
  "client db =
     Object_freeze
       [(''select'', JMethod MSelect db),
        (''selectAll'', JMethod MSelectAll db),
        (''selectAllKeys'', JMethod MSelectAllKeys db),
        (''selectIndex'', JMethod MSelectIndex db),
        (''delete'', JMethod MDelete db),
        (''insert'', JMethod MInsert db),
        (''update'', JMethod MUpdate db),
        (''clear'', JMethod MClear db),
        (''count'', JMethod MCount db),
        (''close'', JMethod MClose db)]"

subsection \<open>The Upgrade Facade\<close>

text \<open>
  The body of the \<^verbatim>\<open>forEach\<close> of \<^verbatim>\<open>create\<close>, for one key, and the loop over the keys
  that \<^verbatim>\<open>Object.keys(schema)\<close> returned. \<^verbatim>\<open>schema[key]\<close> is read twice, before and after
  the \<^verbatim>\<open>unshift\<close>; an exception ends the loop.
\<close>

definition create_index :: "jsval \<Rightarrow> jsval \<Rightarrow> string \<Rightarrow> estate \<Rightarrow> jsval result \<times> estate" where
  "create_index store schema key =
     and_then (\<lambda>e. unshift (get_prop schema key e) (JStr key) e) (\<lambda>_.
     and_then (\<lambda>e. (spread (get_prop schema key e) e, e))
       (\<lambda>args. store_createIndex store args))"

fun create_indexes :: "jsval \<Rightarrow> jsval \<Rightarrow> string list \<Rightarrow> estate \<Rightarrow> jsval result \<times> estate" where
  "create_indexes store schema [] e = (Inr JUndefined, e)"
| "create_indexes store schema (key # keys) e =
     (case create_index store schema key e of
        (Inl x, e1) \<Rightarrow> (Inl x, e1)
      | (Inr _, e1) \<Rightarrow> create_indexes store schema keys e1)"

definition upgrade_create ::
  "jsval \<Rightarrow> jsval \<Rightarrow> jsval \<Rightarrow> jsval \<Rightarrow> estate \<Rightarrow> jsval result \<times> estate" where
  "upgrade_create db table options schema =
     and_then (db_createObjectStore db table options) (\<lambda>store.
       if truthy schema
       then and_then (\<lambda>e. create_indexes store schema (object_keys schema e) e)
              (\<lambda>_. ret store)
       else ret store)"

definition upgrade_delete :: "jsval \<Rightarrow> jsval \<Rightarrow> estate \<Rightarrow> jsval result \<times> estate" where
  "upgrade_delete db table =
     and_then (db_deleteObjectStore db table) (\<lambda>_. ret JUndefined)"

definition upgrade :: "jsval \<Rightarrow> jsval" where
  "upgrade db =
     Object_freeze
       [(''create'', JMethod MCreate db),
        (''delete'', JMethod MDeleteStore db)]"

subsection \<open>The entry points\<close>

definition default_fn :: callback where
  "default_fn e u en = (Outcome [] (Inr JUndefined), en)"

fun call_fn :: "arg \<Rightarrow> jsval \<Rightarrow> jsval \<Rightarrow> estate \<Rightarrow> outcome \<times> estate" where
  "call_fn (Fun f) e u en = f e u en"
| "call_fn (Val v) e u en = (Outcome [] (Inl (TypeError ''fn is not a function'')), en)"

text \<open>\<^verbatim>\<open>e.target.result\<close> and \<^verbatim>\<open>e.target.onerror\<close> of an event.\<close>

fun event_result :: "jsval \<Rightarrow> state \<Rightarrow> jsval" where
  "event_result (JEvent t (JRequest r)) st = get_result st r"
| "event_result e st = JUndefined"

fun event_onerror :: "jsval \<Rightarrow> state \<Rightarrow> handler" where
  "event_onerror (JEvent t (JRequest r)) st =
     (if r < length (reqs st) then onerror (reqs st ! r) else HUnset)"
| "event_onerror e st = HUnset"

text \<open>
  A callback calls an error handler as a function, with an argument \<open>x\<close>. The closures
  of \<^verbatim>\<open>promisify\<close> take no argument, \<^verbatim>\<open>(e) => reject(e)\<close> rejects with \<open>x\<close>, and the
  call of a handler that is not set throws a TypeError. The module registers its success
  and upgrade-needed closures in no place of an error handler; found there, they are
  taken to do nothing. \<open>call_handlers\<close> makes the calls of a callback for the event \<open>e\<close>
  and the connection \<open>c\<close>, up to the first exception.
\<close>

fun call_handler :: "handler \<Rightarrow> jsval \<Rightarrow> state \<Rightarrow> jsval result \<times> state" where
  "call_handler HUnset x st = throw (TypeError ''onerror is not a function'') st"
| "call_handler (HResolveResult r p) x st = ret JUndefined (promisify_onsuccess r p st)"
| "call_handler (HRejectError r p) x st = ret JUndefined (promisify_onerror r p st)"
| "call_handler (HRejectEvent p) x st = ret JUndefined (reject p x st)"
| "call_handler (HResolveClient p) x st = ret JUndefined st"
| "call_handler (HUpgrade p fn) x st = ret JUndefined st"

fun call_handlers :: "jsval \<Rightarrow> nat \<Rightarrow> hcall list \<Rightarrow> state \<Rightarrow> jsval result \<times> state" where
  "call_handlers e c [] st = ret JUndefined st"
| "call_handlers e c (CallRequestOnError x # hs) st =
     and_then (call_handler (event_onerror e st) x) (\<lambda>_. call_handlers e c hs) st"
| "call_handlers e c (CallDbOnError x # hs) st =
     and_then (call_handler (dbonerror st c) x) (\<lambda>_. call_handlers e c hs) st"

text \<open>
  A call \<^verbatim>\<open>fn(e, u)\<close> of the callback in the state \<open>st\<close>, on the connection \<open>c\<close>: the
  callback acts on the engine, its handler calls are made, and it returns or throws.
\<close>

definition run_fn :: "arg \<Rightarrow> jsval \<Rightarrow> jsval \<Rightarrow> nat \<Rightarrow> state \<Rightarrow> jsval result \<times> state" where
  "run_fn fn e u c st =
     (case call_fn fn e u (eng st) of
        (Outcome hs res, en) \<Rightarrow>
          and_then (call_handlers e c hs) (\<lambda>_. call res) (st\<lparr>eng := en\<rparr>))"

text \<open>
  The three handlers \<^verbatim>\<open>open\<close> registers on its request, as functions of the event
  \<open>e\<close>. \<^verbatim>\<open>e.target.result\<close> is the connection. In \<^verbatim>\<open>onupgradeneeded\<close>, the assignment
  \<^verbatim>\<open>db.onerror = ...\<close> to something that is no connection throws out of the handler,
  which then has done nothing; \<^verbatim>\<open>fn(e, upgrade(db))\<close> runs inside \<^verbatim>\<open>try\<close>, and
  calling what is no function throws a TypeError there.
\<close>

definition open_onerror :: "nat \<Rightarrow> jsval \<Rightarrow> state \<Rightarrow> state" where
  "open_onerror p e st = reject p e st"

definition open_onsuccess :: "nat \<Rightarrow> jsval \<Rightarrow> state \<Rightarrow> state" where
  "open_onsuccess p e st = resolve p (client (event_result e st)) st"

definition open_onupgradeneeded :: "nat \<Rightarrow> arg \<Rightarrow> jsval \<Rightarrow> state \<Rightarrow> state" where
  "open_onupgradeneeded p fn e st =
     (case event_result e st of
        JDb c \<Rightarrow>
          (let st1 = st\<lparr>dbonerror := (dbonerror st)(c := HRejectEvent p)\<rparr> in
           case run_fn fn e (upgrade (JDb c)) c st1 of
             (Inl err, st2) \<Rightarrow> reject p err st2
           | (Inr _, st2) \<Rightarrow> st2)
      | _ \<Rightarrow> st)"

text \<open>
  \<^verbatim>\<open>idb.open(name, version = 1, fn = () => {})\<close>: a default applies to an argument that
  is undefined; a function in the place of the version is the callback.
\<close>

definition idb_open :: "jsval \<Rightarrow> arg \<Rightarrow> arg \<Rightarrow> state \<Rightarrow> jsval result \<times> state" where
  "idb_open name version0 fn0 =
     (let version1 = (case version0 of Val JUndefined \<Rightarrow> Val (JNum 1) | _ \<Rightarrow> version0);
          fn1 = (case fn0 of Val JUndefined \<Rightarrow> Fun default_fn | _ \<Rightarrow> fn0);
          fn = (case version1 of Fun f \<Rightarrow> version1 | Val v \<Rightarrow> fn1);
          version = (case version1 of Fun f \<Rightarrow> JNum 1 | Val v \<Rightarrow> v)
      in
      and_then (indexedDB_open name version) (\<lambda>request st.
        (case request of
           JRequest r \<Rightarrow>
             (case new_promise st of
                (p, st1) \<Rightarrow>
                  ret (JPromise p)
                    (set_onupgradeneeded r (HUpgrade p fn)
                      (set_onsuccess r (HResolveClient p)
                        (set_onerror r (HRejectEvent p) st1))))
         | _ \<Rightarrow> throw (TypeError ''not a request'') st)))"

definition idb_delete :: "jsval \<Rightarrow> state \<Rightarrow> jsval result \<times> state" where
  "idb_delete name =
     and_then (indexedDB_deleteDatabase name) promisify"

section \<open>The module, \<^verbatim>\<open>src/unnamed/part_000\<close>, with name validation\<close>

text \<open>
  The second file holds the module again, with \<^verbatim>\<open>assertName\<close> called first in every
  operation that takes a database or table name. Its definitions carry the suffix
  \<open>_v\<close>. \<^verbatim>\<open>promisify\<close> is the same text and is not repeated.
\<close>

definition assertName :: "jsval \<Rightarrow> string \<Rightarrow> unit result" where
  "assertName name label =
     (if \<not> is_string name \<or> name = JStr []
      then Inl (TypeError (label @ '' must be a non-empty string''))
      else Inr ())"

definition client_select_v :: "jsval \<Rightarrow> jsval \<Rightarrow> jsval \<Rightarrow> state \<Rightarrow> jsval result \<times> state" where
  "client_select_v db table key =
     and_then (call (assertName table ''Table name'')) (\<lambda>_.
       and_then (db_transaction db (JArr [table]) (JStr ''readonly'')) (\<lambda>tx.
       and_then (tx_objectStore tx table) (\<lambda>store.
       and_then (store_get store key) promisify)))"

definition client_selectAll_v :: "jsval \<Rightarrow> jsval \<Rightarrow> jsval \<Rightarrow> jsval \<Rightarrow> state \<Rightarrow> jsval result \<times> state" where
  "client_selectAll_v db table query cnt =
     and_then (call (assertName table ''Table name'')) (\<lambda>_.
       and_then (db_transaction db (JArr [table]) (JStr ''readonly'')) (\<lambda>tx.
       and_then (tx_objectStore tx table) (\<lambda>store.
       and_then (store_getAll store query cnt) promisify)))"

definition client_selectAllKeys_v :: "jsval \<Rightarrow> jsval \<Rightarrow> jsval \<Rightarrow> jsval \<Rightarrow> state \<Rightarrow> jsval result \<times> state" where
  "client_selectAllKeys_v db table query cnt =
     and_then (call (assertName table ''Table name'')) (\<lambda>_.
       and_then (db_transaction db (JArr [table]) (JStr ''readonly'')) (\<lambda>tx.
       and_then (tx_objectStore tx table) (\<lambda>store.
       and_then (store_getAllKeys store query cnt) promisify)))"

definition client_selectIndex_v :: "jsval \<Rightarrow> jsval \<Rightarrow> jsval \<Rightarrow> jsval \<Rightarrow> state \<Rightarrow> jsval result \<times> state" where
  "client_selectIndex_v db table index key =
     and_then (call (assertName table ''Table name'')) (\<lambda>_.
       and_then (db_transaction db (JArr [table]) (JStr ''readonly'')) (\<lambda>tx.
       and_then (tx_objectStore tx table) (\<lambda>store.
       and_then (store_index store index) (\<lambda>ix.
       and_then (index_get ix key) promisify))))"

definition client_delete_v :: "jsval \<Rightarrow> jsval \<Rightarrow> jsval \<Rightarrow> state \<Rightarrow> jsval result \<times> state" where
  "client_delete_v db table key =
     and_then (call (assertName table ''Table name'')) (\<lambda>_.
       and_then (db_transaction db (JArr [table]) (JStr ''readwrite'')) (\<lambda>tx.
       and_then (tx_objectStore tx table) (\<lambda>store.
       and_then (store_delete store key) promisify)))"

definition client_insert_v :: "jsval \<Rightarrow> jsval \<Rightarrow> jsval \<Rightarrow> jsval \<Rightarrow> state \<Rightarrow> jsval result \<times> state" where
  "client_insert_v db table value key =
     and_then (call (assertName table ''Table name'')) (\<lambda>_.
       and_then (db_transaction db (JArr [table]) (JStr ''readwrite'')) (\<lambda>tx.
       and_then (tx_objectStore tx table) (\<lambda>store.
       and_then (if key = JUndefined then store_add store [value] else store_add store [value, key])
         (\<lambda>request. promisify request))))"

definition client_update_v :: "jsval \<Rightarrow> jsval \<Rightarrow> jsval \<Rightarrow> jsval \<Rightarrow> state \<Rightarrow> jsval result \<times> state" where
  "client_update_v db table value key =
     and_then (call (assertName table ''Table name'')) (\<lambda>_.
       and_then (db_transaction db (JArr [table]) (JStr ''readwrite'')) (\<lambda>tx.
       and_then (tx_objectStore tx table) (\<lambda>store.
       and_then (if key = JUndefined then store_put store [value] else store_put store [value, key])
         (\<lambda>request. promisify request))))"

definition client_clear_v :: "jsval \<Rightarrow> jsval \<Rightarrow> state \<Rightarrow> jsval result \<times> state" where
  "client_clear_v db table =
     and_then (call (assertName table ''Table name'')) (\<lambda>_.
       and_then (db_transaction db (JArr [table]) (JStr ''readwrite'')) (\<lambda>tx.
       and_then (tx_objectStore tx table) (\<lambda>store.
       and_then (store_clear store) promisify)))"

definition client_count_v :: "jsval \<Rightarrow> jsval \<Rightarrow> jsval \<Rightarrow> state \<Rightarrow> jsval result \<times> state" where
  "client_count_v db table query =
     and_then (call (assertName table ''Table name'')) (\<lambda>_.
       and_then (db_transaction db (JArr [table]) (JStr ''readonly'')) (\<lambda>tx.
       and_then (tx_objectStore tx table) (\<lambda>store.
       and_then (store_count store query) promisify)))"

definition client_close_v :: "jsval \<Rightarrow> state \<Rightarrow> jsval result \<times> state" where
  "client_close_v db = db_close db"

definition client_v :: "jsval \<Rightarrow> jsval" where
  "client_v db =
     Object_freeze
       [(''clear'', JMethod MClear db),
        (''close'', JMethod MClose db),
        (''count'', JMethod MCount db),
        (''delete'', JMethod MDelete db),
        (''select'', JMethod MSelect db),
        (''selectAll'', JMethod MSelectAll db),
        (''selectAllKeys'', JMethod MSelectAllKeys db),
        (''selectIndex'', JMethod MSelectIndex db),
        (''insert'', JMethod MInsert db),
        (''update'', JMethod MUpdate db)]"

text \<open>
  The body of the \<^verbatim>\<open>forEach\<close> of \<^verbatim>\<open>create\<close>, for one key, and the loop over the keys
  that \<^verbatim>\<open>Object.keys(schema)\<close> returned. \<^verbatim>\<open>schema[key]\<close> is read twice, before and after
  the \<^verbatim>\<open>unshift\<close>; an exception ends the loop.
\<close>

definition create_index_v :: "jsval \<Rightarrow> jsval \<Rightarrow> string \<Rightarrow> estate \<Rightarrow> jsval result \<times> estate" where
  "create_index_v store schema key =
     and_then (\<lambda>e. unshift (get_prop schema key e) (JStr key) e) (\<lambda>_.
     and_then (\<lambda>e. (spread (get_prop schema key e) e, e))
       (\<lambda>args. store_createIndex store args))"

fun create_indexes_v :: "jsval \<Rightarrow> jsval \<Rightarrow> string list \<Rightarrow> estate \<Rightarrow> jsval result \<times> estate" where
  "create_indexes_v store schema [] e = (Inr JUndefined, e)"
| "create_indexes_v store schema (key # keys) e =
     (case create_index_v store schema key e of
        (Inl x, e1) \<Rightarrow> (Inl x, e1)
      | (Inr _, e1) \<Rightarrow> create_indexes_v store schema keys e1)"

definition upgrade_create_v ::
  "jsval \<Rightarrow> jsval \<Rightarrow> jsval \<Rightarrow> jsval \<Rightarrow> estate \<Rightarrow> jsval result \<times> estate" where
  "upgrade_create_v db table options schema =
     and_then (call (assertName table ''Object store name'')) (\<lambda>_.
     and_then (db_createObjectStore db table options) (\<lambda>store.
       if truthy schema
       then and_then (\<lambda>e. create_indexes_v store schema (object_keys schema e) e)
              (\<lambda>_. ret store)
       else ret store))"

definition upgrade_delete_v :: "jsval \<Rightarrow> jsval \<Rightarrow> estate \<Rightarrow> jsval result \<times> estate" where
  "upgrade_delete_v db table =
     and_then (call (assertName table ''Object store name'')) (\<lambda>_.
     and_then (db_deleteObjectStore db table) (\<lambda>_. ret JUndefined))"

definition upgrade_v :: "jsval \<Rightarrow> jsval" where
  "upgrade_v db =
     Object_freeze
       [(''create'', JMethod MCreate db),
        (''delete'', JMethod MDeleteStore db)]"

text \<open>
  The three handlers \<^verbatim>\<open>open\<close> registers on its request, as functions of the event
  \<open>e\<close>. \<^verbatim>\<open>e.target.result\<close> is the connection. In \<^verbatim>\<open>onupgradeneeded\<close>, the assignment
  \<^verbatim>\<open>db.onerror = ...\<close> to something that is no connection throws out of the handler,
  which then has done nothing; \<^verbatim>\<open>fn(e, upgrade(db))\<close> runs inside \<^verbatim>\<open>try\<close>, and
  calling what is no function throws a TypeError there.
\<close>

definition open_onerror_v :: "nat \<Rightarrow> jsval \<Rightarrow> state \<Rightarrow> state" where
  "open_onerror_v p e st = reject p e st"

definition open_onsuccess_v :: "nat \<Rightarrow> jsval \<Rightarrow> state \<Rightarrow> state" where
  "open_onsuccess_v p e st = resolve p (client_v (event_result e st)) st"

definition open_onupgradeneeded_v :: "nat \<Rightarrow> arg \<Rightarrow> jsval \<Rightarrow> state \<Rightarrow> state" where
  "open_onupgradeneeded_v p fn e st =
     (case event_result e st of
        JDb c \<Rightarrow>
          (let st1 = st\<lparr>dbonerror := (dbonerror st)(c := HRejectEvent p)\<rparr> in
           case run_fn fn e (upgrade_v (JDb c)) c st1 of
             (Inl err, st2) \<Rightarrow> reject p err st2
           | (Inr _, st2) \<Rightarrow> st2)
      | _ \<Rightarrow> st)"

text \<open>
  \<^verbatim>\<open>idb.open(name, version = 1, fn = () => {})\<close>: a default applies to an argument that
  is undefined; a function in the place of the version is the callback.
\<close>

definition idb_open_v :: "jsval \<Rightarrow> arg \<Rightarrow> arg \<Rightarrow> state \<Rightarrow> jsval result \<times> state" where
  "idb_open_v name version0 fn0 =
     (let version1 = (case version0 of Val JUndefined \<Rightarrow> Val (JNum 1) | _ \<Rightarrow> version0);
          fn1 = (case fn0 of Val JUndefined \<Rightarrow> Fun default_fn | _ \<Rightarrow> fn0);
          fn = (case version1 of Fun f \<Rightarrow> version1 | Val v \<Rightarrow> fn1);
          version = (case version1 of Fun f \<Rightarrow> JNum 1 | Val v \<Rightarrow> v)
      in
      and_then (call (assertName name ''Database name'')) (\<lambda>_.
      and_then (indexedDB_open name version) (\<lambda>request st.
        (case request of
           JRequest r \<Rightarrow>
             (case new_promise st of
                (p, st1) \<Rightarrow>
                  ret (JPromise p)
                    (set_onupgradeneeded r (HUpgrade p fn)
                      (set_onsuccess r (HResolveClient p)
                        (set_onerror r (HRejectEvent p) st1))))
         | _ \<Rightarrow> throw (TypeError ''not a request'') st))))"

definition idb_delete_v :: "jsval \<Rightarrow> state \<Rightarrow> jsval result \<times> state" where
  "idb_delete_v name =
     and_then (call (assertName name ''Database name'')) (\<lambda>_.
     and_then (indexedDB_deleteDatabase name) promisify)"


section \<open>Calls and notifications\<close>

definition arg_at :: "jsval list \<Rightarrow> nat \<Rightarrow> jsval" where
  "arg_at args i = (if i < length args then args ! i else JUndefined)"

text \<open>Calling a method of a facade with an argument list; a missing argument is undefined.\<close>

fun invoke :: "jsval \<Rightarrow> jsval list \<Rightarrow> state \<Rightarrow> jsval result \<times> state" where
  "invoke (JMethod m db) args =
     (case m of
        MSelect \<Rightarrow> client_select db (arg_at args 0) (arg_at args 1)
      | MSelectAll \<Rightarrow> client_selectAll db (arg_at args 0) (arg_at args 1) (arg_at args 2)
      | MSelectAllKeys \<Rightarrow> client_selectAllKeys db (arg_at args 0) (arg_at args 1) (arg_at args 2)
      | MSelectIndex \<Rightarrow> client_selectIndex db (arg_at args 0) (arg_at args 1) (arg_at args 2)
      | MDelete \<Rightarrow> client_delete db (arg_at args 0) (arg_at args 1)
      | MInsert \<Rightarrow> client_insert db (arg_at args 0) (arg_at args 1) (arg_at args 2)
      | MUpdate \<Rightarrow> client_update db (arg_at args 0) (arg_at args 1) (arg_at args 2)
      | MClear \<Rightarrow> client_clear db (arg_at args 0)
      | MCount \<Rightarrow> client_count db (arg_at args 0) (arg_at args 1)
      | MClose \<Rightarrow> client_close db
      | MCreate \<Rightarrow>
          on_engine (upgrade_create db (arg_at args 0) (arg_at args 1) (arg_at args 2))
      | MDeleteStore \<Rightarrow> on_engine (upgrade_delete db (arg_at args 0)))"
| "invoke f args = throw (TypeError ''not a function'')"

text \<open>Calling a method of a facade with an argument list; a missing argument is undefined.\<close>

fun invoke_v :: "jsval \<Rightarrow> jsval list \<Rightarrow> state \<Rightarrow> jsval result \<times> state" where
  "invoke_v (JMethod m db) args =
     (case m of
        MSelect \<Rightarrow> client_select_v db (arg_at args 0) (arg_at args 1)
      | MSelectAll \<Rightarrow> client_selectAll_v db (arg_at args 0) (arg_at args 1) (arg_at args 2)
      | MSelectAllKeys \<Rightarrow> client_selectAllKeys_v db (arg_at args 0) (arg_at args 1) (arg_at args 2)
      | MSelectIndex \<Rightarrow> client_selectIndex_v db (arg_at args 0) (arg_at args 1) (arg_at args 2)
      | MDelete \<Rightarrow> client_delete_v db (arg_at args 0) (arg_at args 1)
      | MInsert \<Rightarrow> client_insert_v db (arg_at args 0) (arg_at args 1) (arg_at args 2)
      | MUpdate \<Rightarrow> client_update_v db (arg_at args 0) (arg_at args 1) (arg_at args 2)
      | MClear \<Rightarrow> client_clear_v db (arg_at args 0)
      | MCount \<Rightarrow> client_count_v db (arg_at args 0) (arg_at args 1)
      | MClose \<Rightarrow> client_close_v db
      | MCreate \<Rightarrow>
          on_engine (upgrade_create_v db (arg_at args 0) (arg_at args 1) (arg_at args 2))
      | MDeleteStore \<Rightarrow> on_engine (upgrade_delete_v db (arg_at args 0)))"
| "invoke_v f args = throw (TypeError ''not a function'')"

text \<open>Which of the two files is loaded.\<close>

datatype variant = IdbJs | Part000

text \<open>Running a registered handler on an event.\<close>

fun run_handler :: "variant \<Rightarrow> handler \<Rightarrow> jsval \<Rightarrow> state \<Rightarrow> state" where
  "run_handler m HUnset e st = st"
| "run_handler m (HResolveResult r p) e st = promisify_onsuccess r p st"
| "run_handler m (HRejectError r p) e st = promisify_onerror r p st"
| "run_handler IdbJs (HRejectEvent p) e st = open_onerror p e st"
| "run_handler Part000 (HRejectEvent p) e st = open_onerror_v p e st"
| "run_handler IdbJs (HResolveClient p) e st = open_onsuccess p e st"
| "run_handler Part000 (HResolveClient p) e st = open_onsuccess_v p e st"
| "run_handler IdbJs (HUpgrade p fn) e st = open_onupgradeneeded p fn e st"
| "run_handler Part000 (HUpgrade p fn) e st = open_onupgradeneeded_v p fn e st"

text \<open>
  The notifications of the engine: success, error and upgrade-needed on a request, and an
  error event that reaches a connection. Each runs the handler registered for it, if any.
\<close>

datatype notification = Success nat | Failure nat | UpgradeNeeded nat | DbError nat jsval

fun fire :: "variant \<Rightarrow> notification \<Rightarrow> state \<Rightarrow> state" where
  "fire m (Success r) st =
     (if r < length (reqs st)
      then run_handler m (onsuccess (reqs st ! r)) (JEvent ''success'' (JRequest r)) st
      else st)"
| "fire m (Failure r) st =
     (if r < length (reqs st)
      then run_handler m (onerror (reqs st ! r)) (JEvent ''error'' (JRequest r)) st
      else st)"
| "fire m (UpgradeNeeded r) st =
     (if r < length (reqs st)
      then run_handler m (onupgradeneeded (reqs st ! r)) (JEvent ''upgradeneeded'' (JRequest r)) st
      else st)"
| "fire m (DbError c e) st = run_handler m (dbonerror st c) e st"

fun fire_all :: "variant \<Rightarrow> notification list \<Rightarrow> state \<Rightarrow> state" where
  "fire_all m [] st = st"
| "fire_all m (n # ns) st = fire_all m ns (fire m n st)"

text \<open>
  The engine answers a pending request: it carries the operation out, stores the result
  or the error in the request and fires the notification. An open request of a version
  above the stored one (none stored: zero) makes the connection, fires upgrade-needed,
  ends the upgrade and fires success; a version below the stored one is a VersionError.
\<close>

definition set_result :: "nat \<Rightarrow> jsval \<Rightarrow> state \<Rightarrow> state" where
  "set_result r v st = st\<lparr>reqs := (reqs st)[r := (reqs st ! r)\<lparr>rresult := v, rdone := True\<rparr>]\<rparr>"

definition set_error :: "nat \<Rightarrow> jsval \<Rightarrow> state \<Rightarrow> state" where
  "set_error r x st = st\<lparr>reqs := (reqs st)[r := (reqs st ! r)\<lparr>rerror := x, rdone := True\<rparr>]\<rparr>"

definition stored_version :: "estate \<Rightarrow> string \<Rightarrow> int" where
  "stored_version e n = (case map_of (dbs e) n of None \<Rightarrow> 0 | Some d \<Rightarrow> dversion d)"

definition connect :: "string \<Rightarrow> int \<Rightarrow> estate \<Rightarrow> estate" where
  "connect n ver e =
     (if stored_version e n < ver
      then e\<lparr>dbs := AList.update n
                 \<lparr>dversion = ver,
                  dstores = (case map_of (dbs e) n of None \<Rightarrow> [] | Some d \<Rightarrow> dstores d)\<rparr> (dbs e),
              conns := conns e @ [\<lparr>cname = n, cclosed = False, cupgrading = True\<rparr>]\<rparr>
      else e\<lparr>conns := conns e @ [\<lparr>cname = n, cclosed = False, cupgrading = False\<rparr>]\<rparr>)"

definition end_upgrade :: "nat \<Rightarrow> state \<Rightarrow> state" where
  "end_upgrade c st =
     (if c < length (conns (eng st))
      then st\<lparr>eng := (eng st)\<lparr>conns := (conns (eng st))[c := (conns (eng st) ! c)\<lparr>cupgrading := False\<rparr>]\<rparr>\<rparr>
      else st)"

definition complete_open :: "variant \<Rightarrow> nat \<Rightarrow> string \<Rightarrow> int \<Rightarrow> state \<Rightarrow> state" where
  "complete_open m r n ver st =
     (let c = length (conns (eng st)) in
      if ver < stored_version (eng st) n
        then fire m (Failure r) (set_error r (DOMException ''VersionError'') st)
      else if stored_version (eng st) n < ver
        then fire m (Success r)
               (end_upgrade c
                 (fire m (UpgradeNeeded r)
                   (set_result r (JDb c) (st\<lparr>eng := connect n ver (eng st)\<rparr>))))
      else fire m (Success r) (set_result r (JDb c) (st\<lparr>eng := connect n ver (eng st)\<rparr>)))"

definition complete :: "variant \<Rightarrow> nat \<Rightarrow> state \<Rightarrow> state" where
  "complete m r st =
     (if r < length (reqs st) \<and> \<not> rdone (reqs st ! r) then
        (case rop (reqs st ! r) of
           OpOpen n ver \<Rightarrow> complete_open m r n ver st
         | opn \<Rightarrow>
             (case exec_op opn (eng st) of
                (Inl x, e) \<Rightarrow> fire m (Failure r) (set_error r x (st\<lparr>eng := e\<rparr>))
              | (Inr v, e) \<Rightarrow> fire m (Success r) (set_result r v (st\<lparr>eng := e\<rparr>))))
      else st)"

text \<open>A run of the engine: requests answered and notifications fired, in any order.\<close>

datatype step = Answer nat | Notify notification

fun run :: "variant \<Rightarrow> step list \<Rightarrow> state \<Rightarrow> state" where
  "run m [] st = st"
| "run m (Answer r # ss) st = run m ss (complete m r st)"
| "run m (Notify n # ss) st = run m ss (fire m n st)"


text \<open>The operations of the loaded file, and the test both validations make.\<close>

fun module_client :: "variant \<Rightarrow> jsval \<Rightarrow> jsval" where
  "module_client IdbJs = client"
| "module_client Part000 = client_v"


fun module_create ::
  "variant \<Rightarrow> jsval \<Rightarrow> jsval \<Rightarrow> jsval \<Rightarrow> jsval \<Rightarrow> estate \<Rightarrow> jsval result \<times> estate" where
  "module_create IdbJs = upgrade_create"
| "module_create Part000 = upgrade_create_v"

fun module_invoke :: "variant \<Rightarrow> jsval \<Rightarrow> jsval list \<Rightarrow> state \<Rightarrow> jsval result \<times> state" where
  "module_invoke IdbJs = invoke"
| "module_invoke Part000 = invoke_v"


fun module_delete :: "variant \<Rightarrow> jsval \<Rightarrow> state \<Rightarrow> jsval result \<times> state" where
  "module_delete IdbJs = idb_delete"
| "module_delete Part000 = idb_delete_v"


text \<open>A call that threw a TypeError.\<close>

fun threw_TypeError :: "'a result \<Rightarrow> bool" where
  "threw_TypeError (Inl (JError n msg)) = (n = ''TypeError'')"
| "threw_TypeError r = False"

definition valid_name :: "jsval \<Rightarrow> bool" where
  "valid_name n = (is_string n \<and> n \<noteq> JStr [])"


section \<open>States to run the module on\<close>

text \<open>A host that prints every value the model leaves open as an object.\<close>

definition plain_host :: "jsval list list \<Rightarrow> jsval \<Rightarrow> string result" where
  "plain_host h v = Inr ''[object Object]''"

definition no_data :: estate where
  "no_data = \<lparr>dbs = [], conns = [], arrays = [], calls = [], host_string = plain_host\<rparr>"

definition start :: state where
  "start = \<lparr>eng = no_data, reqs = [], proms = [], dbonerror = (\<lambda>c. HUnset)\<rparr>"

definition one_request :: state where
  "one_request = snd (indexedDB_deleteDatabase (JStr ''T'') start)"

text \<open>
  Two callbacks: one throws at once; the other calls the error handler of the request
  with a value of its own and throws then.
\<close>

definition throwing_fn :: callback where
  "throwing_fn e u en = (Outcome [] (Inl (JStr ''boom'')), en)"


definition opened_with_throw :: state where
  "opened_with_throw =
     complete IdbJs 0 (snd (idb_open (JStr ''T'') (Val JUndefined) (Fun throwing_fn) start))"

text \<open>
  A database \<open>app\<close>, stored at version 2, with one collection \<open>users\<close> keyed by the
  field \<open>id\<close>, a uniqueness-constrained index on the field \<open>email\<close> and two records, and
  one open connection to it.
\<close>

definition users_store :: objstore where
  "users_store =
     \<lparr>keypath = JStr ''id'', autoinc = False, keygen = 1,
      records =
        [(JNum 1, JObj [(''id'', JNum 1), (''email'', JStr ''a'')]),
         (JNum 2, JObj [(''id'', JNum 2), (''email'', JStr ''b'')])],
      indexes = [(''byEmail'', \<lparr>ipath = JStr ''email'', iunique = True\<rparr>)]\<rparr>"

definition users_db :: state where
  "users_db =
     \<lparr>eng =
        \<lparr>dbs = [(''app'', \<lparr>dversion = 2, dstores = [(''users'', users_store)]\<rparr>)],
         conns = [\<lparr>cname = ''app'', cclosed = False, cupgrading = False\<rparr>],
         arrays = [], calls = [], host_string = plain_host\<rparr>,
      reqs = [], proms = [], dbonerror = (\<lambda>c. HUnset)\<rparr>"


text \<open>
  A schema as the documentation of the module describes it: an object that maps each
  index name to an array \<open>[keyPath]\<close> or \<open>[keyPath, options]\<close> the caller holds, here given
  by the names and the addresses of the arrays. \<open>index_of_array\<close> is the index such an
  array describes, and \<open>prepend_names\<close> the heap after each name has been inserted at
  position zero of its array, in the order of the entries.
\<close>

definition schema_object :: "(string \<times> nat) list \<Rightarrow> jsval" where
  "schema_object specs = JObj (map (\<lambda>(k, r). (k, JArrRef r)) specs)"

fun index_of_array :: "jsval list \<Rightarrow> secondary_index option" where
  "index_of_array [] = None"
| "index_of_array (path # rest) =
     (if valid_keypath path
      then (case index_options (case rest of [] \<Rightarrow> JUndefined | ops # _ \<Rightarrow> ops) of
              Inl x \<Rightarrow> None
            | Inr u \<Rightarrow> Some \<lparr>ipath = path, iunique = u\<rparr>)
      else None)"

fun prepend_names :: "(string \<times> nat) list \<Rightarrow> jsval list list \<Rightarrow> jsval list list" where
  "prepend_names [] h = h"
| "prepend_names ((k, r) # specs) h = prepend_names specs (h[r := JStr k # h ! r])"

text \<open>
  A database \<open>app\<close> in the middle of an upgrade, without collections; the caller holds
  one array, \<open>[''email'']\<close>, at address 0, and another, \<open>[''name'', {unique: true}]\<close>, at
  address 1.
\<close>

definition upgrading_db :: estate where
  "upgrading_db =
     \<lparr>dbs = [(''app'', \<lparr>dversion = 1, dstores = []\<rparr>)],
      conns = [\<lparr>cname = ''app'', cclosed = False, cupgrading = True\<rparr>],
      arrays = [[JStr ''email''], [JStr ''name'', JObj [(''unique'', JBool True)]]],
      calls = [], host_string = plain_host\<rparr>"

text \<open>The request as \<^verbatim>\<open>add\<close> or \<^verbatim>\<open>put\<close> and then \<^verbatim>\<open>promisify\<close> leave it.\<close>

definition write_request ::
  "bool \<Rightarrow> nat \<Rightarrow> string \<Rightarrow> jsval \<Rightarrow> jsval \<Rightarrow> nat \<Rightarrow> nat \<Rightarrow> request" where
  "write_request overwrite c s v k r p =
     \<lparr>rresult = JUndefined, rerror = JNull, onsuccess = HResolveResult r p,
      onerror = HRejectError r p, onupgradeneeded = HUnset,
      rop = OpWrite overwrite c s v k, rdone = False\<rparr>"

definition users_options :: jsval where
  "users_options = JObj [(''keyPath'', JStr ''id'')]"

definition users_specs :: "(string \<times> nat) list" where
  "users_specs = [(''byEmail'', 0), (''byName'', 1)]"

definition users_created :: estate where
  "users_created =
     snd (upgrade_create (JDb 0) (JStr ''users'') users_options (schema_object users_specs)
            upgrading_db)"

section \<open>Promises settle once\<close>

lemmas engine_defs = log_call_def find_db_def find_store_def put_store_def drop_store_def
  throw_def ret_def call_def and_then_def in_upgrade_def logged_def on_engine_def new_request_def
  get_result_def get_error_def stored_version_def connect_def end_upgrade_def
  set_result_def set_error_def complete_open_def complete_def no_store_def
  new_promise_def resolve_def reject_def promise_at_def
  set_onsuccess_def set_onerror_def set_onupgradeneeded_def
  DOMException_def TypeError_def

lemma dom_string_JStr [simp]: "dom_string e (JStr s) = Inr s"
  by (simp add: dom_string_def)

lemma promise_at_resolve:
  "promise_at (resolve p v st) q =
     (if q = p \<and> promise_at st p = Some Pending then Some (Fulfilled v) else promise_at st q)"
  by (simp add: promise_at_def resolve_def nth_list_update)

lemma promise_at_reject:
  "promise_at (reject p v st) q =
     (if q = p \<and> promise_at st p = Some Pending then Some (Rejected v) else promise_at st q)"
  by (simp add: promise_at_def reject_def nth_list_update)

lemma promise_at_frame [simp]:
  "promise_at (reqs_update f st) q = promise_at st q"
  "promise_at (eng_update g st) q = promise_at st q"
  "promise_at (dbonerror_update h st) q = promise_at st q"
  by (simp_all add: promise_at_def)

lemma promise_at_fresh [simp]:
  "promise_at (st\<lparr>proms := proms st @ [Pending]\<rparr>) (length (proms st)) = Some Pending"
  by (simp add: promise_at_def)

lemma promise_at_on_engine [simp]:
  "promise_at (snd (on_engine f st)) q = promise_at st q"
  by (simp add: on_engine_def split: prod.splits)

lemma settled_resolve:
  "promise_at st q = Some x \<Longrightarrow> settled x \<Longrightarrow> promise_at (resolve p v st) q = Some x"
  by (auto simp: promise_at_resolve)

lemma settled_reject:
  "promise_at st q = Some x \<Longrightarrow> settled x \<Longrightarrow> promise_at (reject p v st) q = Some x"
  by (auto simp: promise_at_reject)

lemma settled_call_handler:
  "promise_at st q = Some x \<Longrightarrow> settled x \<Longrightarrow>
   promise_at (snd (call_handler h y st)) q = Some x"
  by (cases h)
     (simp_all add: throw_def ret_def promisify_onsuccess_def promisify_onerror_def
        settled_resolve settled_reject)

lemma kept_by_and_then:
  assumes "\<And>st. P st \<Longrightarrow> P (snd (f st))" "\<And>a st. P st \<Longrightarrow> P (snd (g a st))" "P st"
  shows "P (snd (and_then f g st))"
proof -
  obtain res st1 where o: "f st = (res, st1)" by (cases "f st")
  have "P st1" using assms(1) [OF assms(3)] o by simp
  then show ?thesis using o assms(2) [of st1] by (cases res) (simp_all add: and_then_def)
qed

lemma settled_call_handlers:
  "promise_at st q = Some x \<Longrightarrow> settled x \<Longrightarrow>
   promise_at (snd (call_handlers e c hs st)) q = Some x"
proof (induction hs arbitrary: st)
  case Nil
  then show ?case by (simp add: ret_def)
next
  case (Cons h hs)
  show ?case
  proof (cases h)
    case (CallRequestOnError y)
    show ?thesis
      unfolding CallRequestOnError call_handlers.simps
      by (rule kept_by_and_then [where P = "\<lambda>s. promise_at s q = Some x"])
         (simp_all add: settled_call_handler Cons)
  next
    case (CallDbOnError y)
    show ?thesis
      unfolding CallDbOnError call_handlers.simps
      by (rule kept_by_and_then [where P = "\<lambda>s. promise_at s q = Some x"])
         (simp_all add: settled_call_handler Cons)
  qed
qed

lemma settled_calls_then_reject:
  assumes "promise_at st q = Some x" "settled x"
  shows "promise_at (case and_then (call_handlers e c hs) (\<lambda>_. call res) st of
                       (Inl err, st2) \<Rightarrow> reject p err st2 | (Inr u, st2) \<Rightarrow> st2) q
         = Some x"
proof -
  obtain res2 st2 where o: "and_then (call_handlers e c hs) (\<lambda>_. call res) st = (res2, st2)"
    by (cases "and_then (call_handlers e c hs) (\<lambda>_. call res) st")
  have "promise_at (snd (and_then (call_handlers e c hs) (\<lambda>_. call res) st)) q = Some x"
    by (rule kept_by_and_then [where P = "\<lambda>s. promise_at s q = Some x"])
       (simp_all add: settled_call_handlers assms call_def)
  then have "promise_at st2 q = Some x" using o by simp
  then show ?thesis using o assms(2) by (cases res2) (simp_all add: settled_reject)
qed

lemma settled_run_then_reject:
  assumes "promise_at st q = Some x" "settled x"
  shows "promise_at (case run_fn fn e u c st of
                       (Inl err, st2) \<Rightarrow> reject p err st2 | (Inr u, st2) \<Rightarrow> st2) q
         = Some x"
proof -
  obtain hs res en where o: "call_fn fn e u (eng st) = (Outcome hs res, en)"
    by (cases "call_fn fn e u (eng st)") (metis outcome.exhaust)
  have "promise_at (st\<lparr>eng := en\<rparr>) q = Some x" using assms(1) by simp
  then show ?thesis
    unfolding run_fn_def o using assms(2)
    by (simp add: settled_calls_then_reject del: promise_at_frame)
qed

lemma settled_onupgradeneeded:
  assumes "promise_at st q = Some x" "settled x"
  shows "promise_at (open_onupgradeneeded p fn e st) q = Some x"
proof (cases "\<exists>c. event_result e st = JDb c")
  case True
  then obtain c where c: "event_result e st = JDb c" by blast
  have "promise_at (st\<lparr>dbonerror := (dbonerror st)(c := HRejectEvent p)\<rparr>) q = Some x"
    using assms by simp
  then show ?thesis
    unfolding open_onupgradeneeded_def c using assms(2)
    by (simp add: Let_def settled_run_then_reject del: promise_at_frame)
next
  case False
  then show ?thesis using assms
    unfolding open_onupgradeneeded_def by (cases "event_result e st") simp_all
qed

lemma settled_onupgradeneeded_v:
  assumes "promise_at st q = Some x" "settled x"
  shows "promise_at (open_onupgradeneeded_v p fn e st) q = Some x"
proof (cases "\<exists>c. event_result e st = JDb c")
  case True
  then obtain c where c: "event_result e st = JDb c" by blast
  have "promise_at (st\<lparr>dbonerror := (dbonerror st)(c := HRejectEvent p)\<rparr>) q = Some x"
    using assms by simp
  then show ?thesis
    unfolding open_onupgradeneeded_v_def c using assms(2)
    by (simp add: Let_def settled_run_then_reject del: promise_at_frame)
next
  case False
  then show ?thesis using assms
    unfolding open_onupgradeneeded_v_def by (cases "event_result e st") simp_all
qed

lemma settled_run_handler:
  "promise_at st q = Some x \<Longrightarrow> settled x \<Longrightarrow> promise_at (run_handler m h e st) q = Some x"
  by (cases m; cases h)
     (simp_all add: promisify_onsuccess_def promisify_onerror_def open_onerror_def
        open_onerror_v_def open_onsuccess_def open_onsuccess_v_def settled_resolve
        settled_reject settled_onupgradeneeded settled_onupgradeneeded_v)

lemma settled_fire:
  "promise_at st q = Some x \<Longrightarrow> settled x \<Longrightarrow> promise_at (fire m n st) q = Some x"
  by (cases n) (simp_all add: settled_run_handler)

lemma promise_at_set [simp]:
  "promise_at (set_result r v st) q = promise_at st q"
  "promise_at (set_error r y st) q = promise_at st q"
  "promise_at (end_upgrade c st) q = promise_at st q"
  by (simp_all add: set_result_def set_error_def end_upgrade_def)

lemma settled_answer:
  assumes "promise_at st q = Some x" "settled x"
  shows "promise_at (case exec_op opn (eng st) of
            (Inl y, e) \<Rightarrow> fire m (Failure r) (set_error r y (st\<lparr>eng := e\<rparr>))
          | (Inr v, e) \<Rightarrow> fire m (Success r) (set_result r v (st\<lparr>eng := e\<rparr>))) q = Some x"
proof -
  obtain res e where o: "exec_op opn (eng st) = (res, e)" by (cases "exec_op opn (eng st)")
  show ?thesis unfolding o using assms by (cases res) (simp_all add: settled_fire del: fire.simps)
qed

lemma settled_complete_open:
  assumes "promise_at st q = Some x" "settled x"
  shows "promise_at (complete_open m r n ver st) q = Some x"
  using assms by (simp add: complete_open_def Let_def settled_fire del: fire.simps)

lemma settled_complete:
  assumes "promise_at st q = Some x" "settled x"
  shows "promise_at (complete m r st) q = Some x"
proof (cases "r < length (reqs st) \<and> \<not> rdone (reqs st ! r)")
  case False
  then show ?thesis using assms by (auto simp: complete_def)
next
  case True
  then have "complete m r st =
    (case rop (reqs st ! r) of
           OpOpen n ver \<Rightarrow> complete_open m r n ver st
         | opn \<Rightarrow>
             (case exec_op opn (eng st) of
                (Inl x, e) \<Rightarrow> fire m (Failure r) (set_error r x (st\<lparr>eng := e\<rparr>))
              | (Inr v, e) \<Rightarrow> fire m (Success r) (set_result r v (st\<lparr>eng := e\<rparr>))))"
    by (simp add: complete_def)
  then show ?thesis
    using settled_answer [OF assms] settled_complete_open [OF assms]
    by (cases "rop (reqs st ! r)") (simp_all del: exec_op.simps)
qed


text \<open>
  C7. A promise that has settled keeps its outcome: whatever requests the engine answers
  and whatever notifications fire afterwards (success, error, upgrade-needed, connection
  errors, in any order and any number of times, with any upgrade callbacks), the promise
  is still settled with the same value. This holds for every promise of the state, so for
  those made by \<^verbatim>\<open>promisify\<close> and by \<^verbatim>\<open>open\<close>, in both files.
\<close>

theorem settled_promise_is_final:
  "promise_at st q = Some x \<Longrightarrow> settled x \<Longrightarrow> promise_at (run m steps st) q = Some x"
proof (induction steps arbitrary: st)
  case Nil
  then show ?case by simp
next
  case (Cons s steps)
  then show ?case by (cases s) (simp_all add: settled_complete settled_fire del: fire.simps)
qed

lemma opened_with_throw_rejected:
  "promise_at opened_with_throw 0 = Some (Rejected (JStr ''boom''))"
  by (simp add: opened_with_throw_def idb_open_def indexedDB_open_def start_def no_data_def
      throwing_fn_def open_onupgradeneeded_def open_onsuccess_def run_fn_def Let_def
      engine_defs)

theorem settled_promise_is_final_witness:
  "promise_at opened_with_throw 0 = Some (Rejected (JStr ''boom''))
   \<and> settled (Rejected (JStr ''boom''))
   \<and> promise_at
         (run IdbJs [Notify (Success 0), Notify (Failure 0), Answer 0, Notify (UpgradeNeeded 0)]
            opened_with_throw) 0 = Some (Rejected (JStr ''boom''))"
  using opened_with_throw_rejected
    settled_promise_is_final [OF opened_with_throw_rejected, of IdbJs
      "[Notify (Success 0), Notify (Failure 0), Answer 0, Notify (UpgradeNeeded 0)]"]
  by simp

section \<open>The Request Adapter\<close>

text \<open>
  C1. For every request of the engine, \<^verbatim>\<open>promisify\<close> returns a new, pending promise;
  when the engine has stored a result \<open>v\<close> in the request and fires success, the promise
  is fulfilled with \<open>v\<close> itself, and when it has stored an error \<open>x\<close> and fires the error
  notification, the promise is rejected with \<open>x\<close> itself.
\<close>

theorem promisify_settles_with_request_value:
  assumes "r < length (reqs st)"
  shows "fst (promisify (JRequest r) st) = Inr (JPromise (length (proms st)))
    \<and> promise_at (snd (promisify (JRequest r) st)) (length (proms st)) = Some Pending
    \<and> promise_at (fire m (Success r) (set_result r v (snd (promisify (JRequest r) st))))
         (length (proms st)) = Some (Fulfilled v)
    \<and> promise_at (fire m (Failure r) (set_error r x (snd (promisify (JRequest r) st))))
         (length (proms st)) = Some (Rejected x)"
  using assms
  by (simp add: promisify_def new_promise_def set_onerror_def set_onsuccess_def
      set_result_def set_error_def promisify_onsuccess_def promisify_onerror_def
      promise_at_resolve promise_at_reject get_result_def get_error_def)

theorem promisify_settles_with_request_value_witness:
  "0 < length (reqs one_request)
   \<and> fst (promisify (JRequest 0) one_request) = Inr (JPromise 0)
   \<and> promise_at (fire IdbJs (Success 0)
          (set_result 0 (JNum 7) (snd (promisify (JRequest 0) one_request)))) 0
       = Some (Fulfilled (JNum 7))
   \<and> promise_at (fire IdbJs (Failure 0)
          (set_error 0 (DOMException ''AbortError'') (snd (promisify (JRequest 0) one_request)))) 0
       = Some (Rejected (DOMException ''AbortError''))"
proof -
  have h: "0 < length (reqs one_request)"
    by (simp add: one_request_def indexedDB_deleteDatabase_def start_def Let_def engine_defs)
  have p: "length (proms one_request) = 0"
    by (simp add: one_request_def indexedDB_deleteDatabase_def start_def Let_def engine_defs)
  show ?thesis
    using h promisify_settles_with_request_value
      [OF h, of IdbJs "JNum 7" "DOMException ''AbortError''"]
    by (simp add: p)
qed

section \<open>The facades are frozen\<close>

lemma plain_object_can_change:
  "mutate (Assign ''x'' v) (JObj []) = JObj [(''x'', v)]"
  by simp

text \<open>
  C8. The Connection Facade and the Upgrade Facade of both files are frozen objects: no
  sequence of attempts to assign, define or delete a property changes the object, so the
  operations it exposes are those it was made with.
\<close>

theorem facades_are_frozen:
  "mutate_all ms (client db) = client db \<and> mutate_all ms (client_v db) = client_v db
   \<and> mutate_all ms (upgrade db) = upgrade db \<and> mutate_all ms (upgrade_v db) = upgrade_v db
   \<and> exposed (mutate_all ms (client db))
       = [''select'', ''selectAll'', ''selectAllKeys'', ''selectIndex'', ''delete'', ''insert'',
          ''update'', ''clear'', ''count'', ''close'']
   \<and> exposed (mutate_all ms (client_v db))
       = [''clear'', ''close'', ''count'', ''delete'', ''select'', ''selectAll'',
          ''selectAllKeys'', ''selectIndex'', ''insert'', ''update'']
   \<and> exposed (mutate_all ms (upgrade db)) = [''create'', ''delete'']
   \<and> exposed (mutate_all ms (upgrade_v db)) = [''create'', ''delete'']"
proof -
  have "mutate_all ms (JFrozen ps) = JFrozen ps" for ps
    by (induction ms) simp_all
  then show ?thesis
    by (simp add: client_def client_v_def upgrade_def upgrade_v_def Object_freeze_def)
qed


section \<open>The two files\<close>

lemma assert_pass:
  "valid_name n \<Longrightarrow> and_then (call (assertName n l)) f = f ()"
  by (auto simp: valid_name_def assertName_def and_then_def call_def fun_eq_iff)

lemma assert_fail:
  "\<not> valid_name n \<Longrightarrow>
   and_then (call (assertName n l)) f st = (Inl (TypeError (l @ '' must be a non-empty string'')), st)"
  by (auto simp: valid_name_def assertName_def and_then_def call_def)

lemma and_then_assoc:
  "and_then (and_then m f) g = and_then m (\<lambda>a. and_then (f a) g)"
  by (auto simp: and_then_def fun_eq_iff split: prod.splits sum.splits)

lemma create_indexes_same:
  "create_indexes_v store schema keys e = create_indexes store schema keys e"
  by (induction keys arbitrary: e)
     (simp_all add: create_index_def create_index_v_def split: prod.splits sum.splits)

lemma create_same:
  assumes "valid_name table"
  shows "upgrade_create_v db table options schema = upgrade_create db table options schema"
  by (simp add: upgrade_create_def upgrade_create_v_def assert_pass [OF assms]
      create_indexes_same cong: if_cong)

lemma invoke_same:
  assumes "valid_name (arg_at args 0) \<or> m = MClose"
  shows "invoke_v (JMethod m db) args st = invoke (JMethod m db) args st"
proof (cases "m = MClose")
  case True
  then show ?thesis by (simp add: client_close_def client_close_v_def)
next
  case False
  then have v: "valid_name (arg_at args 0)" using assms by simp
  show ?thesis
    by (cases m)
       (simp_all add: assert_pass [OF v] and_then_assoc
          client_select_def client_select_v_def client_selectAll_def client_selectAll_v_def
          client_selectAllKeys_def client_selectAllKeys_v_def client_selectIndex_def
          client_selectIndex_v_def client_delete_def client_delete_v_def
          client_insert_def client_insert_v_def client_update_def client_update_v_def
          client_clear_def client_clear_v_def client_count_def client_count_v_def
          client_close_def client_close_v_def
          upgrade_create_def upgrade_create_v_def upgrade_delete_def upgrade_delete_v_def
          create_indexes_same cong: if_cong)
qed

lemma open_same:
  assumes "valid_name name"
  shows "idb_open_v name version fn = idb_open name version fn"
  by (simp add: idb_open_def idb_open_v_def assert_pass [OF assms] Let_def)

lemma delete_same:
  assumes "valid_name name"
  shows "idb_delete_v name = idb_delete name"
  by (simp add: idb_delete_def idb_delete_v_def assert_pass [OF assms])

lemma handlers_same:
  "open_onerror_v = open_onerror"
  "open_onupgradeneeded_v = open_onupgradeneeded"
  "upgrade_v = upgrade"
  by (simp_all add: fun_eq_iff open_onerror_def open_onerror_v_def
        open_onupgradeneeded_def open_onupgradeneeded_v_def upgrade_def upgrade_v_def
        cong: jsval.case_cong)

lemma client_same_props:
  "own_prop (client_v db) n = own_prop (client db) n"
  by (simp add: client_def client_v_def Object_freeze_def)

lemma invoke_v_invalid:
  assumes "\<not> valid_name (arg_at args 0)" "m \<noteq> MClose"
  shows "threw_TypeError (fst (invoke_v (JMethod m db) args st)) \<and> snd (invoke_v (JMethod m db) args st) = st"
  using assms(2)
  by (cases m)
     (auto simp: assert_fail [OF assms(1)] on_engine_def TypeError_def
          client_select_v_def client_selectAll_v_def
          client_selectAllKeys_v_def 
          client_selectIndex_v_def client_delete_v_def
          client_insert_v_def client_update_v_def
          client_clear_v_def client_count_v_def
          upgrade_create_v_def upgrade_delete_v_def)

lemma open_v_invalid:
  assumes "\<not> valid_name name"
  shows "idb_open_v name version fn st = (Inl (TypeError (''Database name must be a non-empty string'')), st)"
    "idb_delete_v name st = (Inl (TypeError (''Database name must be a non-empty string'')), st)"
  using assert_fail [OF assms, of "''Database name''"]
  by (simp_all add: idb_open_v_def idb_delete_v_def Let_def)


text \<open>
  C10. With names that are non-empty strings, the module of \<^verbatim>\<open>src/unnamed/part_000\<close> does
  what the module of \<^verbatim>\<open>src/idb.js\<close> does: every method of the two facades, called with
  any argument list whose first argument is such a name (\<^verbatim>\<open>close\<close> takes none), makes
  the same engine calls and returns the same value in the same state; so do \<^verbatim>\<open>open\<close>
  and \<^verbatim>\<open>delete\<close> for such a database name; the handlers \<^verbatim>\<open>open\<close> registers for
  error and upgrade-needed are the same functions and the Upgrade Facade is the same
  object; the Connection Facade that the success handler resolves with has the same
  properties (the two object literals list them in a different order).
\<close>

theorem variants_agree_on_valid_names:
  assumes "valid_name name"
  shows "invoke_v (JMethod m db) (name # args) st = invoke (JMethod m db) (name # args) st
    \<and> invoke_v (JMethod MClose db) args st = invoke (JMethod MClose db) args st
    \<and> idb_open_v name version fn st = idb_open name version fn st
    \<and> idb_delete_v name st = idb_delete name st
    \<and> open_onerror_v p e st = open_onerror p e st
    \<and> open_onupgradeneeded_v p fn e st = open_onupgradeneeded p fn e st
    \<and> upgrade_v db = upgrade db
    \<and> open_onsuccess_v p e st = resolve p (client_v (event_result e st)) st
    \<and> open_onsuccess p e st = resolve p (client (event_result e st)) st
    \<and> own_prop (client_v db) n = own_prop (client db) n
    \<and> set (exposed (client_v db)) = set (exposed (client db))"
proof -
  have "valid_name (arg_at (name # args) 0)"
    using assms by (simp add: arg_at_def)
  then have "invoke_v (JMethod m db) (name # args) st = invoke (JMethod m db) (name # args) st"
    by (intro invoke_same) simp
  moreover have "invoke_v (JMethod MClose db) args st = invoke (JMethod MClose db) args st"
    by (intro invoke_same) simp
  moreover have "set (exposed (client_v db)) = set (exposed (client db))"
    by (auto simp: client_def client_v_def Object_freeze_def)
  ultimately show ?thesis
    using assms
    by (simp add: open_same delete_same handlers_same client_same_props
        open_onsuccess_def open_onsuccess_v_def)
qed

theorem variants_agree_on_valid_names_witness:
  "valid_name (JStr ''users'')
   \<and> invoke_v (JMethod MInsert (JDb 0)) [JStr ''users'', JObj [(''id'', JNum 3)]] users_db
       = invoke (JMethod MInsert (JDb 0)) [JStr ''users'', JObj [(''id'', JNum 3)]] users_db
   \<and> idb_open_v (JStr ''users'') (Val (JNum 3)) (Val JUndefined) users_db
       = idb_open (JStr ''users'') (Val (JNum 3)) (Val JUndefined) users_db
   \<and> idb_delete_v (JStr ''users'') users_db = idb_delete (JStr ''users'') users_db"
proof -
  have h: "valid_name (JStr ''users'')"
    by (simp add: valid_name_def)
  show ?thesis
    using h variants_agree_on_valid_names
      [OF h, where m = MInsert and db = "JDb 0" and args = "[JObj [(''id'', JNum 3)]]"
         and st = users_db and version = "Val (JNum 3)" and fn = "Val JUndefined"]
    by simp
qed

section \<open>Name validation\<close>

text \<open>
  C4, as the code has it. In the file with validation
  (\<^verbatim>\<open>src/unnamed/part_000\<close>), every method of the two facades that takes a table name
  (all but \<^verbatim>\<open>close\<close>), called with a first argument that is not a non-empty string,
  throws a TypeError and leaves the whole state as it was: no engine call is logged, no
  request and no promise is made. So do \<^verbatim>\<open>open\<close> and \<^verbatim>\<open>delete\<close> for the database
  name.
\<close>

theorem invalid_name_throws_before_engine:
  assumes "\<not> valid_name name" and "m \<noteq> MClose"
  shows "threw_TypeError (fst (invoke_v (JMethod m db) (name # args) st))
    \<and> snd (invoke_v (JMethod m db) (name # args) st) = st
    \<and> threw_TypeError (fst (invoke_v (JMethod m db) [] st))
    \<and> snd (invoke_v (JMethod m db) [] st) = st
    \<and> threw_TypeError (fst (idb_open_v name version fn st))
    \<and> snd (idb_open_v name version fn st) = st
    \<and> threw_TypeError (fst (idb_delete_v name st))
    \<and> snd (idb_delete_v name st) = st"
proof -
  have a: "\<not> valid_name (arg_at (name # args) 0)"
    using assms(1) by (simp add: arg_at_def)
  have b: "\<not> valid_name (arg_at [] 0)"
    by (simp add: arg_at_def valid_name_def)
  show ?thesis
    using invoke_v_invalid [OF a assms(2)] invoke_v_invalid [OF b assms(2)]
      open_v_invalid [OF assms(1)]
    by (simp add: TypeError_def)
qed

theorem invalid_name_throws_before_engine_witness:
  "\<not> valid_name (JStr []) \<and> MSelect \<noteq> MClose
   \<and> threw_TypeError (fst (invoke_v (JMethod MSelect (JDb 0)) [JStr [], JNum 1] users_db))
   \<and> snd (invoke_v (JMethod MSelect (JDb 0)) [JStr [], JNum 1] users_db) = users_db
   \<and> threw_TypeError (fst (idb_open_v (JStr []) (Val JUndefined) (Val JUndefined) users_db))
   \<and> snd (idb_open_v (JStr []) (Val JUndefined) (Val JUndefined) users_db) = users_db"
proof -
  have h: "\<not> valid_name (JStr [])"
    by (simp add: valid_name_def)
  have k: "MSelect \<noteq> MClose"
    by simp
  show ?thesis
    using h k invalid_name_throws_before_engine
      [OF h k, where db = "JDb 0" and args = "[JNum 1]" and st = users_db
         and version = "Val JUndefined" and fn = "Val JUndefined"]
    by simp
qed

text \<open>
  C4 as stated fails. The file \<^verbatim>\<open>src/idb.js\<close> validates nothing: \<^verbatim>\<open>select\<close> with the
  empty string as table name goes to the engine, which is asked for a transaction over
  the store named by the empty string, and the exception is the engine's NotFoundError.
  In the file with validation the index name of \<^verbatim>\<open>selectIndex\<close> is not validated: the
  empty index name reaches the engine in the call \<^verbatim>\<open>index\<close>.
\<close>

theorem names_reach_the_engine_unvalidated:
  "\<not> valid_name (JStr [])
   \<and> fst (client_select (JDb 0) (JStr []) (JNum 1) users_db) = Inl (DOMException ''NotFoundError'')
   \<and> calls (eng (snd (client_select (JDb 0) (JStr []) (JNum 1) users_db)))
       = [Call ''transaction'' [JArr [JStr []], JStr ''readonly'']]
   \<and> fst (client_selectIndex_v (JDb 0) (JStr ''users'') (JStr []) (JStr ''a'') users_db)
       = Inl (DOMException ''NotFoundError'')
   \<and> calls (eng (snd (client_selectIndex_v (JDb 0) (JStr ''users'') (JStr []) (JStr ''a'') users_db)))
       = [Call ''transaction'' [JArr [JStr ''users''], JStr ''readonly''],
          Call ''objectStore'' [JStr ''users''], Call ''index'' [JStr []]]"
  by (simp add: valid_name_def client_select_def client_selectIndex_v_def assertName_def
      db_transaction_def scope_names_def tx_objectStore_def store_index_def users_db_def
      users_store_def Let_def engine_defs)

section \<open>Opening a database\<close>

lemma frame_log_call [simp]:
  "dbs (log_call m a e) = dbs e" "conns (log_call m a e) = conns e"
  "arrays (log_call m a e) = arrays e" "calls (log_call m a e) = calls e @ [Call m a]"
  "host_string (log_call m a e) = host_string e"
  by (simp_all add: log_call_def)

lemma dom_string_log_call [simp]: "dom_string (log_call m a e) v = dom_string e v"
  by (simp add: dom_string_def split: option.splits)








text \<open>
  C3, at a failing open: the database \<open>app\<close> is stored at version 2 and is opened at the
  default version 1. The engine stores a VersionError in the request and fires the error
  notification; the promise of \<^verbatim>\<open>open\<close> is rejected with the event, not with the error
  the request carries.
\<close>

theorem open_rejects_with_the_event:
  "fst (idb_open (JStr ''app'') (Val JUndefined) (Val JUndefined) users_db) = Inr (JPromise 0)
   \<and> get_error (complete IdbJs 0
         (snd (idb_open (JStr ''app'') (Val JUndefined) (Val JUndefined) users_db))) 0
       = DOMException ''VersionError''
   \<and> promise_at (complete IdbJs 0
         (snd (idb_open (JStr ''app'') (Val JUndefined) (Val JUndefined) users_db))) 0
       = Some (Rejected (JEvent ''error'' (JRequest 0)))"
  by (simp add: idb_open_def indexedDB_open_def users_db_def users_store_def
      open_onerror_def Let_def engine_defs)


section \<open>Creating a collection and its indexes\<close>

lemma frame_put_store [simp]:
  "conns (put_store c s os e) = conns e" "arrays (put_store c s os e) = arrays e"
  "calls (put_store c s os e) = calls e" "host_string (put_store c s os e) = host_string e"
  by (simp_all add: put_store_def split: option.splits)

lemma dom_string_put_store [simp]: "dom_string (put_store c s os e) v = dom_string e v"
  by (simp add: dom_string_def split: option.splits)

lemma find_db_frame [simp]:
  "find_db (log_call m a e) c = find_db e c"
  "find_db (e\<lparr>arrays := h\<rparr>) c = find_db e c"
  "find_db (e\<lparr>calls := l\<rparr>) c = find_db e c"
  by (simp_all add: find_db_def)

lemma find_store_frame [simp]:
  "find_store (log_call m a e) c s = find_store e c s"
  "find_store (e\<lparr>arrays := h\<rparr>) c s = find_store e c s"
  "find_store (e\<lparr>calls := l\<rparr>) c s = find_store e c s"
  by (simp_all add: find_store_def)

lemma in_upgrade_frame [simp]:
  "in_upgrade (log_call m a e) c = in_upgrade e c"
  "in_upgrade (e\<lparr>arrays := h\<rparr>) c = in_upgrade e c"
  "in_upgrade (put_store c' s os e) c = in_upgrade e c"
  by (simp_all add: in_upgrade_def)

lemma find_db_put_store:
  "find_db e c = Some d \<Longrightarrow>
   find_db (put_store c s os e) c = Some (d\<lparr>dstores := AList.update s os (dstores d)\<rparr>)"
  by (simp add: find_db_def put_store_def update_conv' split: if_splits)

lemma find_store_put_store:
  "find_db e c \<noteq> None \<Longrightarrow> find_store (put_store c s os e) c s = Some os"
  by (auto simp: find_store_def find_db_put_store update_conv')

lemma find_store_gives_db: "find_store e c s = Some os \<Longrightarrow> find_db e c \<noteq> None"
  by (auto simp: find_store_def split: option.splits)

lemma prepend_names_length [simp]: "length (prepend_names specs h) = length h"
  by (induction specs h rule: prepend_names.induct) simp_all

lemma prepend_names_other:
  "r \<notin> snd ` set specs \<Longrightarrow> prepend_names specs h ! r = h ! r"
  by (induction specs h rule: prepend_names.induct) auto

lemma prepend_names_at:
  "distinct (map snd specs) \<Longrightarrow> (k, r) \<in> set specs \<Longrightarrow> r < length h \<Longrightarrow>
   prepend_names specs h ! r = JStr k # h ! r"
proof (induction specs h rule: prepend_names.induct)
  case (1 h)
  then show ?case by simp
next
  case (2 k' r' specs h)
  show ?case
  proof (cases "(k, r) = (k', r')")
    case True
    then have "r \<notin> snd ` set specs" using 2(2) by auto
    then show ?thesis using True 2(4) by (simp add: prepend_names_other)
  next
    case False
    then have in_rest: "(k, r) \<in> set specs" using 2(3) by auto
    then have "r \<noteq> r'" using 2(2) by force
    then show ?thesis using 2(1)[OF _ in_rest] 2(2,4) by simp
  qed
qed

lemma get_prop_schema_object:
  "distinct (map fst specs) \<Longrightarrow> (k, r) \<in> set specs \<Longrightarrow>
   get_prop (schema_object specs) k e = JArrRef r"
proof -
  assume d: "distinct (map fst specs)" and m: "(k, r) \<in> set specs"
  have "distinct (map fst (map (\<lambda>(k, r). (k, JArrRef r)) specs))"
    using d by (simp add: comp_def case_prod_unfold)
  moreover have "(k, JArrRef r) \<in> set (map (\<lambda>(k, r). (k, JArrRef r)) specs)"
    using m by force
  ultimately have "map_of (map (\<lambda>(k, r). (k, JArrRef r)) specs) k = Some (JArrRef r)"
    by (rule map_of_is_SomeI)
  then show ?thesis by (simp add: get_prop_def schema_object_def)
qed

lemma object_keys_schema_object [simp]:
  "object_keys (schema_object specs) e = map fst specs"
  by (simp add: object_keys_def schema_object_def comp_def case_prod_unfold)

lemma index_of_array_Some:
  assumes "index_of_array a = Some ix"
  obtains path rest where "a = path # rest" "valid_keypath path"
    "index_options (case rest of [] \<Rightarrow> JUndefined | ops # _ \<Rightarrow> ops) = Inr (iunique ix)"
    "ipath ix = path"
  using assms by (cases a) (auto split: if_splits sum.splits)

lemma createIndex_ok:
  assumes "in_upgrade e c" "find_store e c s = Some os"
      and "index_of_array a = Some ix" "map_of (indexes os) k = None"
  shows "store_createIndex (JStore c s w) (JStr k # a) e
         = (Inr (JIndex c s k),
            put_store c s (os\<lparr>indexes := indexes os @ [(k, ix)]\<rparr>)
              (log_call ''createIndex'' (JStr k # a) e))"
proof -
  obtain path rest where a: "a = path # rest" "valid_keypath path"
    "index_options (case rest of [] \<Rightarrow> JUndefined | ops # _ \<Rightarrow> ops) = Inr (iunique ix)"
    "ipath ix = path"
    using assms(3) by (rule index_of_array_Some)
  have ix: "\<lparr>ipath = path, iunique = iunique ix\<rparr> = ix"
    using a(4) by (cases ix) simp
  show ?thesis
    using assms(1,2,4) a(2,3)
    by (simp add: store_createIndex_def a(1) Let_def ret_def throw_def ix)
qed

lemma create_index_ok:
  assumes "in_upgrade e c" "find_store e c s = Some os"
      and "r < length (arrays e)" "index_of_array (arrays e ! r) = Some ix"
      and "map_of (indexes os) k = None"
      and "\<And>e'. get_prop schema k e' = JArrRef r"
  shows "create_index (JStore c s w) schema k e
         = (Inr (JIndex c s k),
            put_store c s (os\<lparr>indexes := indexes os @ [(k, ix)]\<rparr>)
              (log_call ''createIndex'' (JStr k # arrays e ! r)
                 (e\<lparr>arrays := (arrays e)[r := JStr k # arrays e ! r]\<rparr>)))"
  using assms(3)
  by (simp add: create_index_def and_then_def assms(6)
      createIndex_ok [where os = os and ix = ix] assms(1,2,4,5))

lemma create_indexes_ok:
  assumes "in_upgrade e c" "find_store e c s = Some os"
      and "distinct (map fst specs)" "distinct (map snd specs)"
      and "\<And>k r. (k, r) \<in> set specs \<Longrightarrow>
             r < length (arrays e) \<and> arrays e ! r = A r \<and> index_of_array (A r) \<noteq> None
             \<and> map_of (indexes os) k = None"
      and "\<And>k r e'. (k, r) \<in> set specs \<Longrightarrow> get_prop schema k e' = JArrRef r"
  shows "\<exists>e'. create_indexes (JStore c s w) schema (map fst specs) e = (Inr JUndefined, e')
      \<and> in_upgrade e' c
      \<and> find_store e' c s
          = Some (os\<lparr>indexes := indexes os @
                     map (\<lambda>(k, r). (k, the (index_of_array (A r)))) specs\<rparr>)
      \<and> arrays e' = prepend_names specs (arrays e)
      \<and> calls e' = calls e @ map (\<lambda>(k, r). Call ''createIndex'' (JStr k # A r)) specs"
  using assms
proof (induction specs arbitrary: e os)
  case Nil
  then show ?case by simp
next
  case (Cons kr rest)
  obtain k r where kr: "kr = (k, r)" by (cases kr)
  have here: "r < length (arrays e)" "arrays e ! r = A r" "index_of_array (A r) \<noteq> None"
    "map_of (indexes os) k = None"
    using Cons.prems(5) [of k r] by (simp_all add: kr)
  then obtain ix where ix: "index_of_array (A r) = Some ix" by auto
  define os2 where "os2 = os\<lparr>indexes := indexes os @ [(k, ix)]\<rparr>"
  define e2 where "e2 = put_store c s os2
              (log_call ''createIndex'' (JStr k # arrays e ! r)
                 (e\<lparr>arrays := (arrays e)[r := JStr k # arrays e ! r]\<rparr>))"
  have step: "create_index (JStore c s w) schema k e = (Inr (JIndex c s k), e2)"
    unfolding e2_def os2_def
    using Cons.prems(1,2) here ix Cons.prems(6) [of k r]
    by (intro create_index_ok) (simp_all add: kr)
  have up2: "in_upgrade e2 c"
    using Cons.prems(1) by (simp add: e2_def)
  have st2: "find_store e2 c s = Some os2"
    using find_store_gives_db [OF Cons.prems(2)]
    by (simp add: e2_def find_store_put_store)
  have arr2: "arrays e2 = (arrays e)[r := JStr k # arrays e ! r]"
    by (simp add: e2_def)
  have calls2: "calls e2 = calls e @ [Call ''createIndex'' (JStr k # A r)]"
    by (simp add: e2_def here)
  have d1: "distinct (map fst rest)" and d2: "distinct (map snd rest)"
    using Cons.prems(3,4) by simp_all
  have rest_ok: "r' < length (arrays e2) \<and> arrays e2 ! r' = A r' \<and> index_of_array (A r') \<noteq> None
             \<and> map_of (indexes os2) k' = None" if "(k', r') \<in> set rest" for k' r'
  proof -
    have a: "r' < length (arrays e)" "arrays e ! r' = A r'" "index_of_array (A r') \<noteq> None"
      "map_of (indexes os) k' = None"
      using Cons.prems(5) [of k' r'] that by simp_all
    have "r' \<noteq> r" using Cons.prems(4) that by (force simp: kr)
    moreover have "k' \<noteq> k" using Cons.prems(3) that by (force simp: kr)
    ultimately show ?thesis using a by (simp add: arr2 os2_def map_add_def)
  qed
  have look: "get_prop schema k' e' = JArrRef r'" if "(k', r') \<in> set rest" for k' r' e'
    using Cons.prems(6) [of k' r' e'] that by simp
  obtain e' where e': "create_indexes (JStore c s w) schema (map fst rest) e2 = (Inr JUndefined, e')"
      "in_upgrade e' c"
      "find_store e' c s = Some (os2\<lparr>indexes := indexes os2 @
                     map (\<lambda>(k, r). (k, the (index_of_array (A r)))) rest\<rparr>)"
      "arrays e' = prepend_names rest (arrays e2)"
      "calls e' = calls e2 @ map (\<lambda>(k, r). Call ''createIndex'' (JStr k # A r)) rest"
    using Cons.IH [OF up2 st2 d1 d2 rest_ok look] by blast
  show ?case
    using e' step
    by (simp add: kr arr2 calls2 os2_def ix)
qed

lemma truthy_schema_object [simp]: "truthy (schema_object specs)"
  by (simp add: schema_object_def)

lemma createObjectStore_ok:
  assumes "in_upgrade e c" "find_db e c \<noteq> None"
      and "dom_string e table = Inr s" "find_store e c s = None"
      and "store_options options = Inr (kp, ai)"
      and "\<not> (ai \<and> (kp = JStr [] \<or> is_array_path kp))"
  shows "db_createObjectStore (JDb c) table options e
         = (Inr (JStore c s True),
            put_store c s
              \<lparr>keypath = kp, autoinc = ai, keygen = 1, records = [], indexes = []\<rparr>
              (log_call ''createObjectStore'' [table, options] e))"
  using assms by (auto simp: db_createObjectStore_def Let_def throw_def ret_def)

lemma create_ok:
  assumes "in_upgrade e c" "find_db e c \<noteq> None"
      and "dom_string e table = Inr s" "find_store e c s = None"
      and "store_options options = Inr (kp, ai)"
      and "\<not> (ai \<and> (kp = JStr [] \<or> is_array_path kp))"
      and "distinct (map fst specs)" "distinct (map snd specs)"
      and "\<forall>(k, r) \<in> set specs. r < length (arrays e) \<and> index_of_array (arrays e ! r) \<noteq> None"
  shows "\<exists>e'. upgrade_create (JDb c) table options (schema_object specs) e
           = (Inr (JStore c s True), e')
      \<and> in_upgrade e' c \<and> find_db e' c \<noteq> None
      \<and> find_store e' c s
          = Some \<lparr>keypath = kp, autoinc = ai, keygen = 1, records = [],
                  indexes = map (\<lambda>(k, r). (k, the (index_of_array (arrays e ! r)))) specs\<rparr>
      \<and> arrays e' = prepend_names specs (arrays e)
      \<and> calls e' = calls e @ Call ''createObjectStore'' [table, options] #
                     map (\<lambda>(k, r). Call ''createIndex'' (JStr k # arrays e ! r)) specs"
proof -
  define os where "os = \<lparr>keypath = kp, autoinc = ai, keygen = 1, records = [], indexes = []\<rparr>"
  define e1 where "e1 = put_store c s os
              (log_call ''createObjectStore'' [table, options] e)"
  have first: "db_createObjectStore (JDb c) table options e = (Inr (JStore c s True), e1)"
    unfolding e1_def os_def using assms(1-6) by (rule createObjectStore_ok)
  have up: "in_upgrade e1 c" using assms(1) by (simp add: e1_def)
  have st: "find_store e1 c s = Some os"
    using assms(2) by (simp add: e1_def find_store_put_store)
  have pre: "r < length (arrays e1) \<and> arrays e1 ! r = arrays e ! r
             \<and> index_of_array (arrays e ! r) \<noteq> None \<and> map_of (indexes os) k = None"
    if "(k, r) \<in> set specs" for k r
    using assms(9) that by (auto simp: e1_def os_def)
  have look: "get_prop (schema_object specs) k e' = JArrRef r" if "(k, r) \<in> set specs" for k r e'
    using assms(7) that by (rule get_prop_schema_object)
  obtain e' where e': "create_indexes (JStore c s True) (schema_object specs)
         (map fst specs) e1 = (Inr JUndefined, e')"
      "in_upgrade e' c"
      "find_store e' c s
          = Some (os\<lparr>indexes := indexes os @
                     map (\<lambda>(k, r). (k, the (index_of_array (arrays e ! r)))) specs\<rparr>)"
      "arrays e' = prepend_names specs (arrays e1)"
      "calls e' = calls e1 @ map (\<lambda>(k, r). Call ''createIndex'' (JStr k # arrays e ! r)) specs"
    using create_indexes_ok [where A = "\<lambda>r. arrays e ! r", OF up st assms(7,8) pre look]
    by blast
  have "upgrade_create (JDb c) table options (schema_object specs) e
           = (Inr (JStore c s True), e')"
    using first e'(1)
    by (simp add: upgrade_create_def and_then_def ret_def)
  moreover have "find_db e' c \<noteq> None"
    using e'(3) by (rule find_store_gives_db)
  ultimately show ?thesis
    using e'(2-5) by (simp add: os_def e1_def)
qed

lemma createObjectStore_returns:
  assumes "db_createObjectStore db table options e = (Inr v, e2)"
  shows "\<exists>c s. db = JDb c \<and> v = JStore c s True \<and> arrays e2 = arrays e
         \<and> calls e2 = calls e @ [Call ''createObjectStore'' [table, options]]"
proof (cases "\<exists>c. db = JDb c")
  case True
  then obtain c where c: "db = JDb c" by blast
  show ?thesis
    using assms unfolding c
    by (auto simp: db_createObjectStore_def Let_def throw_def ret_def
        split: sum.splits prod.splits if_splits)
next
  case False
  then show ?thesis using assms
    by (cases db) (simp_all add: db_createObjectStore_def throw_def)
qed

lemma calls_createIndex:
  "calls (snd (store_createIndex (JStore c s w) args e)) = calls e @ [Call ''createIndex'' args]"
  by (simp add: store_createIndex_def Let_def throw_def ret_def
      split: list.splits sum.splits option.splits)

lemma calls_createIndex_any:
  "\<exists>l. calls (snd (store_createIndex store args e)) = calls e @ l"
  by (cases store) (simp_all add: calls_createIndex, simp_all add: store_createIndex_def throw_def)

lemma calls_unshift: "calls (snd (unshift v x e)) = calls e"
  by (cases v) simp_all

lemma calls_create_index:
  "\<exists>l. calls (snd (create_index store schema k e)) = calls e @ l"
proof -
  obtain r1 e1 where u: "unshift (get_prop schema k e) (JStr k) e = (r1, e1)"
    by (cases "unshift (get_prop schema k e) (JStr k) e")
  have c1: "calls e1 = calls e"
    using calls_unshift [of "get_prop schema k e" "JStr k" e] u by simp
  show ?thesis
  proof (cases r1)
    case (Inl x)
    then show ?thesis using u c1 by (simp add: create_index_def and_then_def)
  next
    case (Inr a)
    show ?thesis
    proof (cases "spread (get_prop schema k e1) e1")
      case (Inl x)
      then show ?thesis using u c1 Inr by (simp add: create_index_def and_then_def)
    next
      case sp: (Inr args)
      then show ?thesis
        using u c1 Inr calls_createIndex_any [of store args e1]
        by (simp add: create_index_def and_then_def)
    qed
  qed
qed

lemma calls_create_indexes:
  "\<exists>l. calls (snd (create_indexes store schema ks e)) = calls e @ l"
proof (induction ks arbitrary: e)
  case Nil
  then show ?case by simp
next
  case (Cons k ks)
  obtain r1 e1 where s: "create_index store schema k e = (r1, e1)"
    by (cases "create_index store schema k e")
  obtain l1 where l1: "calls e1 = calls e @ l1"
    using calls_create_index [of store schema k e] s by auto
  show ?case
  proof (cases r1)
    case (Inl x)
    then show ?thesis using s l1 by simp
  next
    case (Inr a)
    obtain l2 where "calls (snd (create_indexes store schema ks e1)) = calls e1 @ l2"
      using Cons.IH by blast
    then show ?thesis using s l1 Inr by simp
  qed
qed

lemma first_index_call:
  assumes "r < length (arrays e)" "\<And>e'. get_prop schema k e' = JArrRef r"
  shows "\<exists>l. calls (snd (create_indexes (JStore c s w) schema (k # ks) e))
              = calls e @ Call ''createIndex'' (JStr k # arrays e ! r) # l"
proof -
  define e1 where "e1 = e\<lparr>arrays := (arrays e)[r := JStr k # arrays e ! r]\<rparr>"
  have ci: "create_index (JStore c s w) schema k e
        = store_createIndex (JStore c s w) (JStr k # arrays e ! r) e1"
    using assms by (simp add: create_index_def and_then_def e1_def)
  obtain r2 e2 where s: "store_createIndex (JStore c s w) (JStr k # arrays e ! r) e1 = (r2, e2)"
    by (cases "store_createIndex (JStore c s w) (JStr k # arrays e ! r) e1")
  have c2: "calls e2 = calls e @ [Call ''createIndex'' (JStr k # arrays e ! r)]"
    using calls_createIndex [of c s w "JStr k # arrays e ! r" e1] s by (simp add: e1_def)
  show ?thesis
  proof (cases r2)
    case (Inl x)
    then show ?thesis using ci s c2 by simp
  next
    case (Inr a)
    obtain l where "calls (snd (create_indexes (JStore c s w) schema ks e2)) = calls e2 @ l"
      using calls_create_indexes by blast
    then show ?thesis using ci s c2 Inr by simp
  qed
qed


lemma create_without_schema:
  "upgrade_create db table options JUndefined e = db_createObjectStore db table options e"
  by (simp add: upgrade_create_def and_then_def ret_def split: prod.splits sum.splits)

text \<open>
  C5, as the code has it. When the engine accepts the new collection (an upgrade is in
  progress on the connection, the name stands for the text \<open>s\<close>, no collection has that
  name, the options are a valid primary-key configuration; in the file with validation
  the name is a non-empty string) and the schema maps pairwise different index names to
  pairwise different arrays of the caller that can be mutated (none of them frozen), each
  of the form \<open>[keyPath]\<close> or \<open>[keyPath, options]\<close> with a valid key path and valid
  options, then \<^verbatim>\<open>create\<close> returns the new store; the collection exists under the name
  with the key path and the key generator flag of the options and no records; its indexes
  are, in the order of the schema, one per entry, with the entry's name, key path and
  uniqueness flag; and the engine was asked for exactly one \<^verbatim>\<open>createObjectStore\<close> and one
  \<^verbatim>\<open>createIndex\<close> per entry. Without a schema the collection is created with no index.
  In both files.
\<close>

theorem create_makes_store_and_indexes:
  assumes "in_upgrade e c" "find_db e c \<noteq> None"
      and "dom_string e table = Inr s" "find_store e c s = None"
      and "store_options options = Inr (kp, ai)"
      and "\<not> (ai \<and> (kp = JStr [] \<or> is_array_path kp))"
      and "distinct (map fst specs)" "distinct (map snd specs)"
      and "\<forall>(k, r) \<in> set specs. r < length (arrays e) \<and> index_of_array (arrays e ! r) \<noteq> None"
      and "m = Part000 \<longrightarrow> valid_name table"
  shows "fst (module_create m (JDb c) table options (schema_object specs) e)
           = Inr (JStore c s True)
     \<and> find_store (snd (module_create m (JDb c) table options (schema_object specs) e)) c s
         = Some \<lparr>keypath = kp, autoinc = ai, keygen = 1, records = [],
                 indexes = map (\<lambda>(k, r). (k, the (index_of_array (arrays e ! r)))) specs\<rparr>
     \<and> calls (snd (module_create m (JDb c) table options (schema_object specs) e))
         = calls e @ Call ''createObjectStore'' [table, options] #
             map (\<lambda>(k, r). Call ''createIndex'' (JStr k # arrays e ! r)) specs
     \<and> fst (module_create m (JDb c) table options JUndefined e) = Inr (JStore c s True)
     \<and> find_store (snd (module_create m (JDb c) table options JUndefined e)) c s
         = Some \<lparr>keypath = kp, autoinc = ai, keygen = 1, records = [], indexes = []\<rparr>
     \<and> calls (snd (module_create m (JDb c) table options JUndefined e))
         = calls e @ [Call ''createObjectStore'' [table, options]]"
proof -
  have same: "module_create m (JDb c) table options schema e
              = upgrade_create (JDb c) table options schema e" for schema
    using assms(10) by (cases m) (simp_all add: create_same)
  obtain e' where e': "upgrade_create (JDb c) table options (schema_object specs) e
           = (Inr (JStore c s True), e')"
      "find_store e' c s
          = Some \<lparr>keypath = kp, autoinc = ai, keygen = 1, records = [],
                  indexes = map (\<lambda>(k, r). (k, the (index_of_array (arrays e ! r)))) specs\<rparr>"
      "calls e' = calls e @ Call ''createObjectStore'' [table, options] #
                     map (\<lambda>(k, r). Call ''createIndex'' (JStr k # arrays e ! r)) specs"
    using create_ok [OF assms(1-9)] by blast
  have "upgrade_create (JDb c) table options JUndefined e
         = (Inr (JStore c s True),
            put_store c s
              \<lparr>keypath = kp, autoinc = ai, keygen = 1, records = [], indexes = []\<rparr>
              (log_call ''createObjectStore'' [table, options] e))"
    using createObjectStore_ok [OF assms(1-6)] by (simp add: create_without_schema)
  then show ?thesis
    using e' assms(2) by (simp add: same find_store_put_store)
qed

lemma users_created_eq:
  "upgrade_create (JDb 0) (JStr ''users'') users_options (schema_object users_specs) upgrading_db
   = (Inr (JStore 0 ''users'' True),
      \<lparr>dbs = [(''app'', \<lparr>dversion = 1, dstores =
                [(''users'', \<lparr>keypath = JStr ''id'', autoinc = False, keygen = 1, records = [],
                    indexes = [(''byEmail'', \<lparr>ipath = JStr ''email'', iunique = False\<rparr>),
                               (''byName'', \<lparr>ipath = JStr ''name'', iunique = True\<rparr>)]\<rparr>)]\<rparr>)],
       conns = [\<lparr>cname = ''app'', cclosed = False, cupgrading = True\<rparr>],
       arrays = [[JStr ''byEmail'', JStr ''email''],
                 [JStr ''byName'', JStr ''name'', JObj [(''unique'', JBool True)]]],
       calls = [Call ''createObjectStore'' [JStr ''users'', JObj [(''keyPath'', JStr ''id'')]],
                Call ''createIndex'' [JStr ''byEmail'', JStr ''email''],
                Call ''createIndex''
                  [JStr ''byName'', JStr ''name'', JObj [(''unique'', JBool True)]]],
       host_string = plain_host\<rparr>)"
  by (simp add: upgrade_create_def create_index_def db_createObjectStore_def
      store_createIndex_def object_keys_def get_prop_def schema_object_def users_specs_def
      users_options_def upgrading_db_def Let_def engine_defs)

theorem create_makes_store_and_indexes_witness:
  "in_upgrade upgrading_db 0 \<and> find_db upgrading_db 0 \<noteq> None
   \<and> dom_string upgrading_db (JStr ''users'') = Inr ''users''
   \<and> find_store upgrading_db 0 ''users'' = None
   \<and> store_options users_options = Inr (JStr ''id'', False)
   \<and> distinct (map fst users_specs) \<and> distinct (map snd users_specs)
   \<and> index_of_array (arrays upgrading_db ! 0) = Some \<lparr>ipath = JStr ''email'', iunique = False\<rparr>
   \<and> index_of_array (arrays upgrading_db ! 1) = Some \<lparr>ipath = JStr ''name'', iunique = True\<rparr>
   \<and> valid_name (JStr ''users'')
   \<and> fst (upgrade_create (JDb 0) (JStr ''users'') users_options (schema_object users_specs)
         upgrading_db) = Inr (JStore 0 ''users'' True)
   \<and> find_store (snd (upgrade_create (JDb 0) (JStr ''users'') users_options
         (schema_object users_specs) upgrading_db)) 0 ''users''
       = Some \<lparr>keypath = JStr ''id'', autoinc = False, keygen = 1, records = [],
               indexes = [(''byEmail'', \<lparr>ipath = JStr ''email'', iunique = False\<rparr>),
                          (''byName'', \<lparr>ipath = JStr ''name'', iunique = True\<rparr>)]\<rparr>
   \<and> fst (upgrade_create_v (JDb 0) (JStr ''users'') users_options (schema_object users_specs)
         upgrading_db) = Inr (JStore 0 ''users'' True)
   \<and> find_store (snd (upgrade_create_v (JDb 0) (JStr ''users'') users_options
         (schema_object users_specs) upgrading_db)) 0 ''users''
       = Some \<lparr>keypath = JStr ''id'', autoinc = False, keygen = 1, records = [],
               indexes = [(''byEmail'', \<lparr>ipath = JStr ''email'', iunique = False\<rparr>),
                          (''byName'', \<lparr>ipath = JStr ''name'', iunique = True\<rparr>)]\<rparr>
   \<and> calls (snd (upgrade_create_v (JDb 0) (JStr ''users'') users_options
         (schema_object users_specs) upgrading_db))
       = [Call ''createObjectStore'' [JStr ''users'', users_options],
          Call ''createIndex'' [JStr ''byEmail'', JStr ''email''],
          Call ''createIndex'' [JStr ''byName'', JStr ''name'', JObj [(''unique'', JBool True)]]]"
proof -
  have h1: "in_upgrade upgrading_db 0"
    by (simp add: upgrading_db_def in_upgrade_def)
  have h2: "find_db upgrading_db 0 \<noteq> None"
    by (simp add: upgrading_db_def find_db_def)
  have h3: "dom_string upgrading_db (JStr ''users'') = Inr ''users''"
    by simp
  have h4: "find_store upgrading_db 0 ''users'' = None"
    by (simp add: upgrading_db_def find_db_def find_store_def)
  have h5: "store_options users_options = Inr (JStr ''id'', False)"
    by (simp add: users_options_def)
  have h6: "\<not> (False \<and> (JStr ''id'' = JStr [] \<or> is_array_path (JStr ''id'')))"
    by simp
  have h7: "distinct (map fst users_specs)" and h8: "distinct (map snd users_specs)"
    by (simp_all add: users_specs_def)
  have a0: "index_of_array (arrays upgrading_db ! 0) = Some \<lparr>ipath = JStr ''email'', iunique = False\<rparr>"
    by (simp add: upgrading_db_def)
  have a1: "index_of_array (arrays upgrading_db ! 1) = Some \<lparr>ipath = JStr ''name'', iunique = True\<rparr>"
    by (simp add: upgrading_db_def)
  have h9: "\<forall>(k, r) \<in> set users_specs.
              r < length (arrays upgrading_db) \<and> index_of_array (arrays upgrading_db ! r) \<noteq> None"
    using a0 a1 by (simp add: users_specs_def) (simp add: upgrading_db_def)
  have v: "valid_name (JStr ''users'')"
    by (simp add: valid_name_def)
  have i: "IdbJs = Part000 \<longrightarrow> valid_name (JStr ''users'')"
    by simp
  have j: "Part000 = Part000 \<longrightarrow> valid_name (JStr ''users'')"
    using v by simp
  have c: "calls upgrading_db = []"
    "arrays upgrading_db = [[JStr ''email''], [JStr ''name'', JObj [(''unique'', JBool True)]]]"
    by (simp_all add: upgrading_db_def)
  show ?thesis
    using h1 h2 h3 h4 h5 h7 h8 a0 a1 v
      create_makes_store_and_indexes [OF h1 h2 h3 h4 h5 h6 h7 h8 h9 i]
      create_makes_store_and_indexes [OF h1 h2 h3 h4 h5 h6 h7 h8 h9 j]
    by (simp add: users_specs_def c)
qed

text \<open>
  C5 as stated fails when two entries of the schema hold the same array: the array
  \<open>[''email'']\<close> at address 0 is a well-formed description of an index, and the schema
  gives it to the names \<open>byEmail\<close> and \<open>byMail\<close>. The first index is created; for the second
  name the array reads \<open>[''byMail'', ''byEmail'', ''email'']\<close>, the engine is asked for an
  index \<open>byMail\<close> on the key path \<open>byEmail\<close> with the options \<open>''email''\<close>, and throws. The
  collection has no index \<open>byMail\<close>. It fails as well for an entry that is a frozen array:
  \<^verbatim>\<open>unshift\<close> throws, the engine is not asked for the index, and the collection has
  none. In both files.
\<close>

theorem create_with_shared_array_misses_index:
  "index_of_array (arrays upgrading_db ! 0) = Some \<lparr>ipath = JStr ''email'', iunique = False\<rparr>
   \<and> fst (upgrade_create (JDb 0) (JStr ''users'') users_options
          (schema_object [(''byEmail'', 0), (''byMail'', 0)]) upgrading_db)
       = Inl (TypeError ''options is not an object'')
   \<and> find_store (snd (upgrade_create (JDb 0) (JStr ''users'') users_options
          (schema_object [(''byEmail'', 0), (''byMail'', 0)]) upgrading_db)) 0 ''users''
       = Some \<lparr>keypath = JStr ''id'', autoinc = False, keygen = 1, records = [],
               indexes = [(''byEmail'', \<lparr>ipath = JStr ''email'', iunique = False\<rparr>)]\<rparr>
   \<and> calls (snd (upgrade_create (JDb 0) (JStr ''users'') users_options
          (schema_object [(''byEmail'', 0), (''byMail'', 0)]) upgrading_db))
       = [Call ''createObjectStore'' [JStr ''users'', JObj [(''keyPath'', JStr ''id'')]],
          Call ''createIndex'' [JStr ''byEmail'', JStr ''email''],
          Call ''createIndex'' [JStr ''byMail'', JStr ''byEmail'', JStr ''email'']]
   \<and> fst (upgrade_create_v (JDb 0) (JStr ''users'') users_options
          (schema_object [(''byEmail'', 0), (''byMail'', 0)]) upgrading_db)
       = Inl (TypeError ''options is not an object'')
   \<and> find_store (snd (upgrade_create_v (JDb 0) (JStr ''users'') users_options
          (schema_object [(''byEmail'', 0), (''byMail'', 0)]) upgrading_db)) 0 ''users''
       = Some \<lparr>keypath = JStr ''id'', autoinc = False, keygen = 1, records = [],
               indexes = [(''byEmail'', \<lparr>ipath = JStr ''email'', iunique = False\<rparr>)]\<rparr>
   \<and> index_of_array [JStr ''email''] = Some \<lparr>ipath = JStr ''email'', iunique = False\<rparr>
   \<and> fst (upgrade_create (JDb 0) (JStr ''users'') users_options
          (JObj [(''byEmail'', JArr [JStr ''email''])]) upgrading_db)
       = Inl (TypeError ''object is not extensible'')
   \<and> find_store (snd (upgrade_create (JDb 0) (JStr ''users'') users_options
          (JObj [(''byEmail'', JArr [JStr ''email''])]) upgrading_db)) 0 ''users''
       = Some \<lparr>keypath = JStr ''id'', autoinc = False, keygen = 1, records = [], indexes = []\<rparr>
   \<and> fst (upgrade_create_v (JDb 0) (JStr ''users'') users_options
          (JObj [(''byEmail'', JArr [JStr ''email''])]) upgrading_db)
       = Inl (TypeError ''object is not extensible'')"
  by (simp add: upgrade_create_def upgrade_create_v_def assertName_def create_index_def
      create_index_v_def db_createObjectStore_def
      store_createIndex_def object_keys_def get_prop_def schema_object_def
      users_options_def upgrading_db_def Let_def engine_defs)

lemma arrays_createIndex: "arrays (snd (store_createIndex store args e)) = arrays e"
proof (cases "\<exists>c s w. store = JStore c s w")
  case True
  then obtain c s w where "store = JStore c s w" by blast
  then show ?thesis
    by (simp add: store_createIndex_def Let_def throw_def ret_def
        split: list.splits sum.splits option.splits)
next
  case False
  then show ?thesis by (cases store) (simp_all add: store_createIndex_def throw_def)
qed

lemma create_index_returns:
  assumes "fst (create_index store schema k e) = Inr u"
      and "\<And>e'. get_prop schema k e' = JArrRef r"
  shows "r < length (arrays e)
       \<and> arrays (snd (create_index store schema k e)) = (arrays e)[r := JStr k # arrays e ! r]"
proof (cases "r < length (arrays e)")
  case False
  then show ?thesis using assms by (simp add: create_index_def and_then_def)
next
  case True
  define e1 where "e1 = e\<lparr>arrays := (arrays e)[r := JStr k # arrays e ! r]\<rparr>"
  have "create_index store schema k e = store_createIndex store (JStr k # arrays e ! r) e1"
    using True assms(2) by (simp add: create_index_def and_then_def e1_def)
  then show ?thesis
    using True arrays_createIndex [of store "JStr k # arrays e ! r" e1] by (simp add: e1_def)
qed

lemma create_indexes_returns:
  assumes "fst (create_indexes store schema (map fst specs) e) = Inr u"
      and "\<And>k r e'. (k, r) \<in> set specs \<Longrightarrow> get_prop schema k e' = JArrRef r"
  shows "(\<forall>(k, r) \<in> set specs. r < length (arrays e))
       \<and> arrays (snd (create_indexes store schema (map fst specs) e))
           = prepend_names specs (arrays e)"
  using assms
proof (induction specs arbitrary: e)
  case Nil
  then show ?case by simp
next
  case (Cons kr rest)
  obtain k r where kr: "kr = (k, r)" by (cases kr)
  obtain res e2 where s: "create_index store schema k e = (res, e2)"
    by (cases "create_index store schema k e")
  have look: "get_prop schema k e' = JArrRef r" for e'
    using Cons.prems(2) [of k r e'] by (simp add: kr)
  show ?case
  proof (cases res)
    case (Inl x)
    then show ?thesis using Cons.prems(1) s by (simp add: kr)
  next
    case (Inr a)
    have step: "r < length (arrays e)" "arrays e2 = (arrays e)[r := JStr k # arrays e ! r]"
      using create_index_returns [of store schema k e a r] s Inr look by simp_all
    have rest: "fst (create_indexes store schema (map fst rest) e2) = Inr u"
      using Cons.prems(1) s Inr by (simp add: kr)
    have look': "get_prop schema k' e' = JArrRef r'" if "(k', r') \<in> set rest" for k' r' e'
      using Cons.prems(2) [of k' r' e'] that by simp
    have ih: "(\<forall>(k, r) \<in> set rest. r < length (arrays e2))
       \<and> arrays (snd (create_indexes store schema (map fst rest) e2))
           = prepend_names rest (arrays e2)"
      using Cons.IH [OF rest look'] by blast
    then show ?thesis using s Inr step by (auto simp: kr)
  qed
qed

lemma create_returns:
  assumes "fst (upgrade_create db table options (schema_object specs) e) = Inr store"
      and "distinct (map fst specs)"
  shows "(\<forall>(k, r) \<in> set specs. r < length (arrays e))
       \<and> arrays (snd (upgrade_create db table options (schema_object specs) e))
           = prepend_names specs (arrays e)"
proof -
  obtain res e1 where o: "db_createObjectStore db table options e = (res, e1)"
    by (cases "db_createObjectStore db table options e")
  show ?thesis
  proof (cases res)
    case (Inl x)
    then show ?thesis using assms(1) o by (simp add: upgrade_create_def and_then_def)
  next
    case (Inr st)
    have a1: "arrays e1 = arrays e"
      using createObjectStore_returns [of db table options e st e1] o Inr by auto
    obtain res2 e2 where l: "create_indexes st (schema_object specs) (map fst specs) e1 = (res2, e2)"
      by (cases "create_indexes st (schema_object specs) (map fst specs) e1")
    have up: "upgrade_create db table options (schema_object specs) e
        = (case res2 of Inl x \<Rightarrow> (Inl x, e2) | Inr _ \<Rightarrow> (Inr st, e2))"
      using o Inr l by (simp add: upgrade_create_def and_then_def ret_def split: sum.splits)
    show ?thesis
    proof (cases res2)
      case (Inl x)
      then show ?thesis using assms(1) up by simp
    next
      case r2: (Inr u)
      have look: "get_prop (schema_object specs) k e' = JArrRef r" if "(k, r) \<in> set specs" for k r e'
        using assms(2) that by (rule get_prop_schema_object)
      have "(\<forall>(k, r) \<in> set specs. r < length (arrays e1))
       \<and> arrays (snd (create_indexes st (schema_object specs) (map fst specs) e1))
           = prepend_names specs (arrays e1)"
        using create_indexes_returns [of st "schema_object specs" specs e1 u] l r2 look by simp
      then show ?thesis using up r2 l a1 by simp
    qed
  qed
qed

lemma create_mutates:
  assumes "fst (upgrade_create db table options (schema_object specs) e) = Inr store"
      and "distinct (map fst specs)"
      and "e1 = snd (upgrade_create db table options (schema_object specs) e)"
      and "specs = (k0, r0) # rest"
      and "db_createObjectStore db table2 options2 e1 = (Inr store2, e2)"
  shows "arrays e1 = prepend_names specs (arrays e)
     \<and> length (arrays e1) = length (arrays e)
     \<and> (distinct (map snd specs) \<longrightarrow> (\<forall>(k, r) \<in> set specs. arrays e1 ! r = JStr k # arrays e ! r))
     \<and> (\<forall>r. r \<notin> snd ` set specs \<longrightarrow> arrays e1 ! r = arrays e ! r)
     \<and> (\<exists>l. calls (snd (upgrade_create db table2 options2 (schema_object specs) e1))
              = calls e1 @ Call ''createObjectStore'' [table2, options2] #
                  Call ''createIndex'' (JStr k0 # arrays e1 ! r0) # l)
     \<and> arrays e1 ! r0 \<noteq> arrays e ! r0"
proof -
  have ret: "\<forall>(k, r) \<in> set specs. r < length (arrays e)"
    and arr: "arrays e1 = prepend_names specs (arrays e)"
    using create_returns [OF assms(1,2)] by (simp_all add: assms(3))
  have at: "arrays e1 ! r = JStr k # arrays e ! r"
    if "distinct (map snd specs)" "(k, r) \<in> set specs" for k r
    using prepend_names_at [OF that] ret that(2) by (auto simp: arr)
  have other: "arrays e1 ! r = arrays e ! r" if "r \<notin> snd ` set specs" for r
    using that by (simp add: arr prepend_names_other)
  obtain c2 n2 where s2: "store2 = JStore c2 n2 True"
      "arrays e2 = arrays e1"
      "calls e2 = calls e1 @ [Call ''createObjectStore'' [table2, options2]]"
    using createObjectStore_returns [OF assms(5)] by blast
  have r0: "r0 < length (arrays e2)"
    using ret by (simp add: s2(2) arr assms(4))
  have look: "get_prop (schema_object specs) k0 x = JArrRef r0" for x
    using assms(2) by (rule get_prop_schema_object) (simp add: assms(4))
  obtain l where l: "calls (snd (create_indexes store2 (schema_object specs) (map fst specs) e2))
        = calls e2 @ Call ''createIndex'' (JStr k0 # arrays e2 ! r0) # l"
    using first_index_call [OF r0 look, of c2 n2 True "map fst rest"]
    by (auto simp: s2(1) assms(4))
  have "calls (snd (upgrade_create db table2 options2 (schema_object specs) e1))
        = calls (snd (create_indexes store2 (schema_object specs) (map fst specs) e2))"
    using assms(5)
    by (simp add: upgrade_create_def and_then_def ret_def split: prod.splits sum.splits)
  then have second: "calls (snd (upgrade_create db table2 options2 (schema_object specs) e1))
      = calls e1 @ Call ''createObjectStore'' [table2, options2] #
                  Call ''createIndex'' (JStr k0 # arrays e1 ! r0) # l"
    using l by (simp add: s2(2,3))
  have longer: "length (prepend_names sp h ! r) \<ge> length (h ! r)" if "r < length h" for sp h r
    using that
  proof (induction sp h rule: prepend_names.induct)
    case (1 h)
    then show ?case by simp
  next
    case (2 k' r' sp h)
    then show ?case by (cases "r = r'") (auto simp: le_Suc_eq dest: order_trans [rotated])
  qed
  have "length (arrays e1 ! r0) > length (arrays e ! r0)"
  proof -
    have "r0 < length (arrays e)" using ret by (simp add: assms(4))
    then have "length (prepend_names rest ((arrays e)[r0 := JStr k0 # arrays e ! r0]) ! r0)
               \<ge> length ((arrays e)[r0 := JStr k0 # arrays e ! r0] ! r0)"
      by (intro longer) simp
    then show ?thesis using \<open>r0 < length (arrays e)\<close> by (simp add: arr assms(4))
  qed
  then have changed: "arrays e1 ! r0 \<noteq> arrays e ! r0" by auto
  show ?thesis
    using arr at other second changed by auto
qed

lemma create_v_returned:
  assumes "fst (upgrade_create_v db table options schema e) = Inr store"
  shows "valid_name table"
proof (rule ccontr)
  assume "\<not> valid_name table"
  then have "fst (upgrade_create_v db table options schema e)
             = Inl (TypeError (''Object store name'' @ '' must be a non-empty string''))"
    unfolding upgrade_create_v_def by (simp add: assert_fail)
  then show False using assms by simp
qed

text \<open>
  C9. When \<^verbatim>\<open>create\<close> returns, the arrays of the caller's schema have changed in place:
  the heap is the old one with each index name inserted at position zero of its entry's
  array, in the order of the entries, at the same addresses; every array that is no
  entry of the schema is untouched, and when no two entries hold the same array, the
  array of every entry is the index name followed by what the array held. A second call
  of \<^verbatim>\<open>create\<close> with the same schema, once its \<^verbatim>\<open>createObjectStore\<close> is through (in the
  file with validation: for a name that is a non-empty string), asks the engine for the
  first index with the index name followed by the array as the first call left it, which
  is no longer the array the caller wrote: the index name stands in the place of the key
  path. In both files.
\<close>

theorem create_mutates_schema_arrays:
  assumes "fst (module_create m db table options (schema_object specs) e) = Inr store"
      and "distinct (map fst specs)"
      and "e1 = snd (module_create m db table options (schema_object specs) e)"
      and "specs = (k0, r0) # rest"
      and "db_createObjectStore db table2 options2 e1 = (Inr store2, e2)"
      and "m = Part000 \<longrightarrow> valid_name table2"
  shows "arrays e1 = prepend_names specs (arrays e)
     \<and> length (arrays e1) = length (arrays e)
     \<and> (distinct (map snd specs) \<longrightarrow> (\<forall>(k, r) \<in> set specs. arrays e1 ! r = JStr k # arrays e ! r))
     \<and> (\<forall>r. r \<notin> snd ` set specs \<longrightarrow> arrays e1 ! r = arrays e ! r)
     \<and> (\<exists>l. calls (snd (module_create m db table2 options2 (schema_object specs) e1))
              = calls e1 @ Call ''createObjectStore'' [table2, options2] #
                  Call ''createIndex'' (JStr k0 # arrays e1 ! r0) # l)
     \<and> arrays e1 ! r0 \<noteq> arrays e ! r0"
proof -
  have same1: "module_create m db table options (schema_object specs) e
               = upgrade_create db table options (schema_object specs) e"
  proof (cases m)
    case IdbJs
    then show ?thesis by simp
  next
    case Part000
    then have "valid_name table"
      using assms(1) by (auto dest: create_v_returned)
    then show ?thesis using Part000 by (simp add: create_same)
  qed
  have same2: "module_create m db table2 options2 (schema_object specs) e1
               = upgrade_create db table2 options2 (schema_object specs) e1"
    using assms(6) by (cases m) (simp_all add: create_same)
  show ?thesis
    unfolding same2
    by (rule create_mutates [OF assms(1) [unfolded same1] assms(2) assms(3) [unfolded same1]
          assms(4,5)])
qed

lemma users_created_v_eq:
  "upgrade_create_v (JDb 0) (JStr ''users'') users_options (schema_object users_specs) upgrading_db
   = upgrade_create (JDb 0) (JStr ''users'') users_options (schema_object users_specs) upgrading_db"
  by (simp add: create_same valid_name_def)

theorem create_mutates_schema_arrays_witness:
  "fst (upgrade_create (JDb 0) (JStr ''users'') users_options (schema_object users_specs)
          upgrading_db) = Inr (JStore 0 ''users'' True)
   \<and> fst (upgrade_create_v (JDb 0) (JStr ''users'') users_options (schema_object users_specs)
          upgrading_db) = Inr (JStore 0 ''users'' True)
   \<and> users_created
       = snd (upgrade_create_v (JDb 0) (JStr ''users'') users_options (schema_object users_specs)
               upgrading_db)
   \<and> distinct (map fst users_specs) \<and> distinct (map snd users_specs)
   \<and> users_specs = (''byEmail'', 0) # [(''byName'', 1)]
   \<and> fst (db_createObjectStore (JDb 0) (JStr ''people'') users_options users_created)
       = Inr (JStore 0 ''people'' True)
   \<and> valid_name (JStr ''people'')
   \<and> arrays upgrading_db = [[JStr ''email''], [JStr ''name'', JObj [(''unique'', JBool True)]]]
   \<and> arrays users_created
       = [[JStr ''byEmail'', JStr ''email''],
          [JStr ''byName'', JStr ''name'', JObj [(''unique'', JBool True)]]]
   \<and> (\<exists>l. calls (snd (upgrade_create (JDb 0) (JStr ''people'') users_options
                        (schema_object users_specs) users_created))
            = calls users_created @
                Call ''createObjectStore'' [JStr ''people'', users_options] #
                Call ''createIndex'' [JStr ''byEmail'', JStr ''byEmail'', JStr ''email''] # l)
   \<and> (\<exists>l. calls (snd (upgrade_create_v (JDb 0) (JStr ''people'') users_options
                        (schema_object users_specs) users_created))
            = calls users_created @
                Call ''createObjectStore'' [JStr ''people'', users_options] #
                Call ''createIndex'' [JStr ''byEmail'', JStr ''byEmail'', JStr ''email''] # l)"
proof -
  have h1: "fst (module_create m (JDb 0) (JStr ''users'') users_options
                   (schema_object users_specs) upgrading_db) = Inr (JStore 0 ''users'' True)" for m
    by (cases m) (simp_all add: users_created_v_eq users_created_eq)
  have h2: "distinct (map fst users_specs)" and d: "distinct (map snd users_specs)"
    by (simp_all add: users_specs_def)
  have h3: "users_created
      = snd (module_create m (JDb 0) (JStr ''users'') users_options (schema_object users_specs)
               upgrading_db)" for m
    by (cases m) (simp_all add: users_created_def users_created_v_eq)
  have h4: "users_specs = (''byEmail'', 0) # [(''byName'', 1)]"
    by (simp add: users_specs_def)
  have f: "fst (db_createObjectStore (JDb 0) (JStr ''people'') users_options users_created)
       = Inr (JStore 0 ''people'' True)"
    unfolding users_created_def users_created_eq
    by (simp add: db_createObjectStore_def users_options_def Let_def engine_defs)
  then have h5: "db_createObjectStore (JDb 0) (JStr ''people'') users_options users_created
       = (Inr (JStore 0 ''people'' True),
          snd (db_createObjectStore (JDb 0) (JStr ''people'') users_options users_created))"
    by (simp add: prod_eq_iff)
  have v: "valid_name (JStr ''people'')"
    by (simp add: valid_name_def)
  have h6: "m = Part000 \<longrightarrow> valid_name (JStr ''people'')" for m
    using v by simp
  have a: "arrays upgrading_db = [[JStr ''email''], [JStr ''name'', JObj [(''unique'', JBool True)]]]"
    by (simp add: upgrading_db_def)
  show ?thesis
    using h1 [of IdbJs] h1 [of Part000] h3 [of Part000] h2 d h4 f v a
      create_mutates_schema_arrays [OF h1 h2 h3 h4 h5 h6, of IdbJs]
      create_mutates_schema_arrays [OF h1 h2 h3 h4 h5 h6, of Part000]
    by (auto simp add: users_specs_def)
qed

section \<open>Insert and update\<close>

lemma eng_resolve [simp]: "eng (resolve p v st) = eng st" "eng (reject p v st) = eng st"
  by (simp_all add: resolve_def reject_def)

text \<open>The state after a write has been requested.\<close>

lemma write_returns:
  assumes "c < length (conns (eng st))" "\<not> cclosed (conns (eng st) ! c)"
      "\<not> cupgrading (conns (eng st) ! c)"
      and "dom_string (eng st) table = Inr s"
      and "find_store (eng st) c s = Some os"
      and "write_key os v key = Inr k"
  shows "and_then (db_transaction (JDb c) (JArr [table]) (JStr ''readwrite'')) (\<lambda>tx.
           and_then (tx_objectStore tx table) (\<lambda>store.
           and_then (store_write ow store (if key = JUndefined then [v] else [v, key])) promisify)) st
         = (Inr (JPromise (length (proms st))),
            st\<lparr>eng := log_call (if ow then ''put'' else ''add'') (if key = JUndefined then [v] else [v, key])
                       (log_call ''objectStore'' [table]
                         (log_call ''transaction'' [JArr [table], JStr ''readwrite''] (eng st))),
               reqs := reqs st @ [write_request ow c s v k
                                    (length (reqs st)) (length (proms st))],
               proms := proms st @ [Pending]\<rparr>)"
proof (cases "key = JUndefined")
  case True
  then have k: "write_key os v JUndefined = Inr k"
    using assms(6) by simp
  show ?thesis
    using assms(1-5) k True
    by (simp add: and_then_def db_transaction_def scope_names_def tx_objectStore_def
        store_write_def promisify_def new_promise_def new_request_def logged_def throw_def
        ret_def Let_def set_onsuccess_def set_onerror_def write_request_def)
next
  case False
  show ?thesis
    using assms False
    by (simp add: and_then_def db_transaction_def scope_names_def tx_objectStore_def
        store_write_def promisify_def new_promise_def new_request_def logged_def throw_def
        ret_def Let_def set_onsuccess_def set_onerror_def write_request_def)
qed

lemma exec_write_conflict:
  assumes "find_store e c s = Some os"
      and "unique_conflict os (assigned_key os k) (stored_value os k v)"
  shows "exec_write ow c s v k e = (Inl (DOMException ''ConstraintError''), e)"
  using assms by (simp add: exec_write_def Let_def)

lemma exec_write_add_duplicate:
  assumes "find_store e c s = Some os" "map_of (records os) (assigned_key os k) \<noteq> None"
  shows "exec_write False c s v k e = (Inl (DOMException ''ConstraintError''), e)"
  using assms by (simp add: exec_write_def Let_def)

lemma exec_write_ok:
  assumes "find_store e c s = Some os"
      and "ow \<or> map_of (records os) (assigned_key os k) = None"
      and "\<not> unique_conflict os (assigned_key os k) (stored_value os k v)"
  shows "\<exists>g. exec_write ow c s v k e
           = (Inr (assigned_key os k),
              put_store c s (os\<lparr>records := AList.update (assigned_key os k) (stored_value os k v)
                                          (records os), keygen := g\<rparr>) e)"
  using assms by (auto simp: exec_write_def Let_def)

lemma complete_write_fails:
  assumes "r = length rs" "p = length ps"
      and "exec_write ow c s v k e = (Inl x, e')"
  shows "complete m r \<lparr>eng = e, reqs = rs @ [write_request ow c s v k r p],
                        proms = ps @ [Pending], dbonerror = h\<rparr>
         = \<lparr>eng = e', reqs = rs @ [(write_request ow c s v k r p)\<lparr>rerror := x, rdone := True\<rparr>],
            proms = ps @ [Rejected x], dbonerror = h\<rparr>"
  using assms
  by (simp add: complete_def write_request_def set_error_def promisify_onerror_def
      get_error_def reject_def)

lemma complete_write_succeeds:
  assumes "r = length rs" "p = length ps"
      and "exec_write ow c s v k e = (Inr y, e')"
  shows "complete m r \<lparr>eng = e, reqs = rs @ [write_request ow c s v k r p],
                        proms = ps @ [Pending], dbonerror = h\<rparr>
         = \<lparr>eng = e', reqs = rs @ [(write_request ow c s v k r p)\<lparr>rresult := y, rdone := True\<rparr>],
            proms = ps @ [Fulfilled y], dbonerror = h\<rparr>"
  using assms
  by (simp add: complete_def write_request_def set_result_def promisify_onsuccess_def
      get_result_def resolve_def)

lemma insert_form:
  "client_insert db table v key
   = and_then (db_transaction db (JArr [table]) (JStr ''readwrite'')) (\<lambda>tx.
       and_then (tx_objectStore tx table) (\<lambda>store.
       and_then (store_write False store (if key = JUndefined then [v] else [v, key])) promisify))"
  by (simp add: client_insert_def store_add_def and_then_assoc)

lemma update_form:
  "client_update db table v key
   = and_then (db_transaction db (JArr [table]) (JStr ''readwrite'')) (\<lambda>tx.
       and_then (tx_objectStore tx table) (\<lambda>store.
       and_then (store_write True store (if key = JUndefined then [v] else [v, key])) promisify))"
  by (simp add: client_update_def store_put_def and_then_assoc)

lemma invoke_insert_update:
  assumes "m = Part000 \<longrightarrow> valid_name table"
  shows "module_invoke m (JMethod MInsert db) [table, v, key] st = client_insert db table v key st
       \<and> module_invoke m (JMethod MUpdate db) [table, v, key] st = client_update db table v key st"
proof (cases m)
  case IdbJs
  then show ?thesis by (simp add: arg_at_def)
next
  case Part000
  then have a: "valid_name (arg_at [table, v, key] 0)"
    using assms by (simp add: arg_at_def)
  have i: "invoke_v (JMethod MInsert db) [table, v, key] st
           = invoke (JMethod MInsert db) [table, v, key] st"
    using a by (intro invoke_same) simp
  have u: "invoke_v (JMethod MUpdate db) [table, v, key] st
           = invoke (JMethod MUpdate db) [table, v, key] st"
    using a by (intro invoke_same) simp
  show ?thesis using Part000 i u by (simp add: arg_at_def)
qed


text \<open>
  C2, as the code has it. Take an open connection, a collection \<open>os\<close> of it under the
  text \<open>s\<close> that the table name stands for, and a value and an optional key for which the
  engine finds the primary key of the write (\<open>write_key\<close>: from the value by the key path,
  the explicit key, or the next key of the generator); in the file with validation the
  table name is a non-empty string. Then \<^verbatim>\<open>insert\<close> and \<^verbatim>\<open>update\<close> each return a new
  promise. Suppose first that the write repeats no key of a uniqueness-constrained index.
  If the collection has a record under the primary key, the promise of \<^verbatim>\<open>insert\<close> is
  rejected with the engine's ConstraintError once the engine has answered, and the
  collection is unchanged; if it has none, the promise is fulfilled with the key and the
  record is added. The promise of \<^verbatim>\<open>update\<close> is fulfilled with the key in both cases,
  and the record under the key is the new value. If the write does repeat a key of a
  uniqueness-constrained index, the promises of \<^verbatim>\<open>insert\<close> and of \<^verbatim>\<open>update\<close> are both
  rejected with the ConstraintError and the collection is unchanged. In both files.
\<close>

theorem insert_rejects_duplicate_update_overwrites:
  assumes "c < length (conns (eng st))" "\<not> cclosed (conns (eng st) ! c)"
      "\<not> cupgrading (conns (eng st) ! c)"
      and "dom_string (eng st) table = Inr s"
      and "find_store (eng st) c s = Some os"
      and "write_key os v key = Inr k"
      and "m = Part000 \<longrightarrow> valid_name table"
      and "ins = module_invoke m (JMethod MInsert (JDb c)) [table, v, key] st"
      and "upd = module_invoke m (JMethod MUpdate (JDb c)) [table, v, key] st"
      and "pk = assigned_key os k" and "sv = stored_value os k v"
  shows "fst ins = Inr (JPromise (length (proms st)))
     \<and> fst upd = Inr (JPromise (length (proms st)))
     \<and> (\<not> unique_conflict os pk sv \<and> map_of (records os) pk \<noteq> None \<longrightarrow>
          promise_at (complete m (length (reqs st)) (snd ins)) (length (proms st))
            = Some (Rejected (DOMException ''ConstraintError''))
          \<and> find_store (eng (complete m (length (reqs st)) (snd ins))) c s = Some os)
     \<and> (\<not> unique_conflict os pk sv \<and> map_of (records os) pk = None \<longrightarrow>
          promise_at (complete m (length (reqs st)) (snd ins)) (length (proms st))
            = Some (Fulfilled pk)
          \<and> (\<exists>os'. find_store (eng (complete m (length (reqs st)) (snd ins))) c s = Some os'
                \<and> records os' = records os @ [(pk, sv)]))
     \<and> (\<not> unique_conflict os pk sv \<longrightarrow>
          promise_at (complete m (length (reqs st)) (snd upd)) (length (proms st))
            = Some (Fulfilled pk)
          \<and> (\<exists>os'. find_store (eng (complete m (length (reqs st)) (snd upd))) c s = Some os'
                \<and> records os' = AList.update pk sv (records os)))
     \<and> (unique_conflict os pk sv \<longrightarrow>
          promise_at (complete m (length (reqs st)) (snd ins)) (length (proms st))
            = Some (Rejected (DOMException ''ConstraintError''))
          \<and> promise_at (complete m (length (reqs st)) (snd upd)) (length (proms st))
            = Some (Rejected (DOMException ''ConstraintError''))
          \<and> find_store (eng (complete m (length (reqs st)) (snd ins))) c s = Some os
          \<and> find_store (eng (complete m (length (reqs st)) (snd upd))) c s = Some os)"
proof -
  define r where "r = length (reqs st)"
  define p where "p = length (proms st)"
  define logs where "logs = (\<lambda>ow. log_call (if ow then ''put'' else ''add'')
                       (if key = JUndefined then [v] else [v, key])
                       (log_call ''objectStore'' [table]
                         (log_call ''transaction'' [JArr [table], JStr ''readwrite''] (eng st))))"
  define after where "after = (\<lambda>ow. \<lparr>eng = logs ow,
               reqs = reqs st @ [write_request ow c s v k r p],
               proms = proms st @ [Pending], dbonerror = dbonerror st\<rparr>)"
  have shape: "st\<lparr>eng := logs ow,
               reqs := reqs st @ [write_request ow c s v k r p],
               proms := proms st @ [Pending]\<rparr> = after ow" for ow
    by (cases st) (simp add: after_def)
  have ins: "ins = (Inr (JPromise p), after False)"
    using write_returns [OF assms(1-6), of False] invoke_insert_update [OF assms(7)]
    by (simp add: assms(8) insert_form shape [symmetric] logs_def r_def p_def)
  have upd: "upd = (Inr (JPromise p), after True)"
    using write_returns [OF assms(1-6), of True] invoke_insert_update [OF assms(7)]
    by (simp add: assms(9) update_form shape [symmetric] logs_def r_def p_def)
  have st: "find_store (logs ow) c s = Some os" for ow
    using assms(5) by (simp add: logs_def)
  have db: "find_db (logs ow) c \<noteq> None" for ow
    using st by (rule find_store_gives_db)
  have failed: "promise_at (complete m r (after ow)) p
                  = Some (Rejected (DOMException ''ConstraintError''))
          \<and> find_store (eng (complete m r (after ow))) c s = Some os"
    if "exec_write ow c s v k (logs ow) = (Inl (DOMException ''ConstraintError''), logs ow)"
    for ow
    unfolding after_def complete_write_fails [OF r_def p_def that]
    using st by (simp add: promise_at_def p_def)
  have dup: "promise_at (complete m r (after False)) p
               = Some (Rejected (DOMException ''ConstraintError''))
          \<and> find_store (eng (complete m r (after False))) c s = Some os"
    if "map_of (records os) pk \<noteq> None"
    using st that by (intro failed exec_write_add_duplicate) (simp_all add: assms(10))
  have conflict: "promise_at (complete m r (after ow)) p
               = Some (Rejected (DOMException ''ConstraintError''))
          \<and> find_store (eng (complete m r (after ow))) c s = Some os"
    if "unique_conflict os pk sv" for ow
    using st that by (intro failed exec_write_conflict) (simp_all add: assms(10,11))
  have ok: "promise_at (complete m r (after ow)) p = Some (Fulfilled pk)
          \<and> (\<exists>os'. find_store (eng (complete m r (after ow))) c s = Some os'
                \<and> records os' = AList.update pk sv (records os))"
    if h: "ow \<or> map_of (records os) pk = None" and u: "\<not> unique_conflict os pk sv" for ow
  proof -
    obtain g where ex: "exec_write ow c s v k (logs ow)
           = (Inr pk, put_store c s (os\<lparr>records := AList.update pk sv (records os), keygen := g\<rparr>)
                 (logs ow))"
      using exec_write_ok [OF st [of ow] h [unfolded assms(10)] u [unfolded assms(10,11)]]
      by (auto simp: assms(10,11))
    show ?thesis
      unfolding after_def complete_write_succeeds [OF r_def p_def ex]
      using db by (simp add: promise_at_def p_def find_store_put_store)
  qed
  have "map_of xs pk = None \<Longrightarrow> AList.update pk sv xs = xs @ [(pk, sv)]"
    for xs :: "(jsval \<times> jsval) list"
    by (induction xs) (auto split: if_splits)
  then have fresh: "AList.update pk sv (records os) = records os @ [(pk, sv)]"
    if "map_of (records os) pk = None"
    using that by blast
  show ?thesis
    using ins upd dup ok [of True] ok [of False] fresh conflict [of True] conflict [of False]
    by (auto simp: r_def p_def)
qed

theorem insert_rejects_duplicate_update_overwrites_witness:
  "0 < length (conns (eng users_db)) \<and> \<not> cclosed (conns (eng users_db) ! 0)
   \<and> \<not> cupgrading (conns (eng users_db) ! 0)
   \<and> dom_string (eng users_db) (JStr ''users'') = Inr ''users''
   \<and> find_store (eng users_db) 0 ''users'' = Some users_store
   \<and> write_key users_store (JObj [(''id'', JNum 1), (''email'', JStr ''c'')]) JUndefined
       = Inr (JNum 1)
   \<and> valid_name (JStr ''users'')
   \<and> \<not> unique_conflict users_store (JNum 1) (JObj [(''id'', JNum 1), (''email'', JStr ''c'')])
   \<and> map_of (records users_store) (JNum 1)
       = Some (JObj [(''id'', JNum 1), (''email'', JStr ''a'')])
   \<and> promise_at
        (complete IdbJs 0
           (snd (invoke (JMethod MInsert (JDb 0))
                   [JStr ''users'', JObj [(''id'', JNum 1), (''email'', JStr ''c'')], JUndefined]
                   users_db))) 0
       = Some (Rejected (DOMException ''ConstraintError''))
   \<and> promise_at
        (complete IdbJs 0
           (snd (invoke (JMethod MUpdate (JDb 0))
                   [JStr ''users'', JObj [(''id'', JNum 1), (''email'', JStr ''c'')], JUndefined]
                   users_db))) 0
       = Some (Fulfilled (JNum 1))
   \<and> promise_at
        (complete Part000 0
           (snd (invoke_v (JMethod MInsert (JDb 0))
                   [JStr ''users'', JObj [(''id'', JNum 1), (''email'', JStr ''c'')], JUndefined]
                   users_db))) 0
       = Some (Rejected (DOMException ''ConstraintError''))
   \<and> promise_at
        (complete Part000 0
           (snd (invoke_v (JMethod MUpdate (JDb 0))
                   [JStr ''users'', JObj [(''id'', JNum 1), (''email'', JStr ''c'')], JUndefined]
                   users_db))) 0
       = Some (Fulfilled (JNum 1))"
proof -
  have h1: "0 < length (conns (eng users_db))"
    and h2: "\<not> cclosed (conns (eng users_db) ! 0)"
    and h3: "\<not> cupgrading (conns (eng users_db) ! 0)"
    by (simp_all add: users_db_def)
  have h4: "dom_string (eng users_db) (JStr ''users'') = Inr ''users''"
    by simp
  have h5: "find_store (eng users_db) 0 ''users'' = Some users_store"
    by (simp add: users_db_def find_store_def find_db_def)
  have h6: "write_key users_store (JObj [(''id'', JNum 1), (''email'', JStr ''c'')]) JUndefined
       = Inr (JNum 1)"
    by (simp add: write_key_def users_store_def)
  have u: "\<not> unique_conflict users_store (JNum 1) (JObj [(''id'', JNum 1), (''email'', JStr ''c'')])"
    by (simp add: unique_conflict_def users_store_def)
  have k1: "JNum 1 = assigned_key users_store (JNum 1)"
    by (simp add: assigned_key_def)
  have k2: "JObj [(''id'', JNum 1), (''email'', JStr ''c'')]
            = stored_value users_store (JNum 1) (JObj [(''id'', JNum 1), (''email'', JStr ''c'')])"
    by (simp add: stored_value_def)
  have v: "valid_name (JStr ''users'')"
    by (simp add: valid_name_def)
  have h7: "m = Part000 \<longrightarrow> valid_name (JStr ''users'')" for m
    using v by simp
  have r: "map_of (records users_store) (JNum 1)
       = Some (JObj [(''id'', JNum 1), (''email'', JStr ''a'')])"
    by (simp add: users_store_def)
  have l: "length (reqs users_db) = 0" "length (proms users_db) = 0"
    by (simp_all add: users_db_def)
  show ?thesis
    using h1 h2 h3 h4 h5 h6 u r v
      insert_rejects_duplicate_update_overwrites [OF h1 h2 h3 h4 h5 h6 h7 refl refl k1 k2, of IdbJs]
      insert_rejects_duplicate_update_overwrites [OF h1 h2 h3 h4 h5 h6 h7 refl refl k1 k2, of Part000]
    by (simp add: l)
qed

text \<open>
  C2 as stated fails on a collection with a uniqueness-constrained index. In \<open>users\<close>, the
  records 1 and 2 have the addresses \<open>a\<close> and \<open>b\<close>, unique by the index \<open>byEmail\<close>. An
  \<^verbatim>\<open>update\<close> of record 1 to the address \<open>b\<close> finds a record with the same primary key,
  and its promise is rejected with the engine's ConstraintError; an \<^verbatim>\<open>insert\<close> of a
  record 3 with the address \<open>b\<close> finds no record with the same primary key, and its
  promise is rejected as well. The \<^verbatim>\<open>update\<close> of the file with validation is rejected
  in the same way.
\<close>

theorem update_rejected_by_unique_index:
  "map_of (records users_store) (JNum 1) = Some (JObj [(''id'', JNum 1), (''email'', JStr ''a'')])
   \<and> map_of (records users_store) (JNum 3) = None
   \<and> fst (client_update (JDb 0) (JStr ''users'')
            (JObj [(''id'', JNum 1), (''email'', JStr ''b'')]) JUndefined users_db)
       = Inr (JPromise 0)
   \<and> promise_at
        (complete IdbJs 0
           (snd (client_update (JDb 0) (JStr ''users'')
                   (JObj [(''id'', JNum 1), (''email'', JStr ''b'')]) JUndefined users_db))) 0
       = Some (Rejected (DOMException ''ConstraintError''))
   \<and> fst (client_insert (JDb 0) (JStr ''users'')
            (JObj [(''id'', JNum 3), (''email'', JStr ''b'')]) JUndefined users_db)
       = Inr (JPromise 0)
   \<and> promise_at
        (complete IdbJs 0
           (snd (client_insert (JDb 0) (JStr ''users'')
                   (JObj [(''id'', JNum 3), (''email'', JStr ''b'')]) JUndefined users_db))) 0
       = Some (Rejected (DOMException ''ConstraintError''))
   \<and> fst (client_update_v (JDb 0) (JStr ''users'')
            (JObj [(''id'', JNum 1), (''email'', JStr ''b'')]) JUndefined users_db)
       = Inr (JPromise 0)
   \<and> promise_at
        (complete Part000 0
           (snd (client_update_v (JDb 0) (JStr ''users'')
                   (JObj [(''id'', JNum 1), (''email'', JStr ''b'')]) JUndefined users_db))) 0
       = Some (Rejected (DOMException ''ConstraintError''))"
  by (simp add: client_update_def client_insert_def client_update_v_def assertName_def
      store_put_def store_add_def
      store_write_def db_transaction_def scope_names_def tx_objectStore_def write_key_def
      exec_write_def assigned_key_def stored_value_def unique_conflict_def promisify_def
      promisify_onerror_def promisify_onsuccess_def users_db_def users_store_def
      Let_def engine_defs)

end
